theory Spec2Isabelle
  imports Complex_Main "HOL-Library.Extended_Nat"
begin

section \<open>JavaScript numbers (IEEE 754 binary64)\<close>

text \<open>
  The corrector computes with JavaScript numbers. Its additions and subtractions round
  to the nearest double, ties to even; the model below states that rounding on the reals.
\<close>

text \<open>
  Rounding a real number to an integer, to the nearest one and to the even one in a tie.
\<close>

definition roundHalfEven :: "real \<Rightarrow> int" where
  "roundHalfEven y =
     (let f = \<lfloor>y\<rfloor>; r = y - of_int f
      in if r < 1 / 2 then f
         else if r > 1 / 2 then f + 1
         else if even f then f else f + 1)"

text \<open>
  Rounding a real number to binary64: in the binade \<open>2^e \<le> |x| < 2^(e+1)\<close> the doubles are
  the multiples of \<open>2^(e-52)\<close>, and below \<open>2^-1022\<close> (subnormal numbers) the multiples of
  \<open>2^-1074\<close>. The exponent is not bounded above here; \<open>toNum\<close> below turns a rounded
  magnitude of \<open>2^1024\<close> or more into an infinity, as IEEE 754 does.
\<close>

definition binade :: "real \<Rightarrow> int" where
  "binade x = max \<lfloor>log 2 \<bar>x\<bar>\<rfloor> (- 1022)"

definition ulp :: "real \<Rightarrow> real" where
  "ulp x = 2 powr (of_int (binade x) - 52)"

definition roundDouble :: "real \<Rightarrow> real" where
  "roundDouble x = (if x = 0 then 0 else of_int (roundHalfEven (x / ulp x)) * ulp x)"

text \<open>Half the spacing of the subnormal numbers, and the overflow threshold.\<close>

definition halfMinSubnormal :: real where
  "halfMinSubnormal = 2 powr (- 1075)"

definition overflowThreshold :: real where
  "overflowThreshold = 2 powr 1024"

text \<open>
  A JavaScript number: a finite double, written by its real value, an infinity or NaN.
  The two zeros are one value: the corrector only adds, subtracts and compares, and no
  such operation tells them apart.
\<close>

datatype jsnum = Num real | PosInf | NegInf | NaN

definition toNum :: "real \<Rightarrow> jsnum" where
  "toNum x =
     (let r = roundDouble x
      in if overflowThreshold \<le> r then PosInf
         else if r \<le> - overflowThreshold then NegInf
         else Num r)"

text \<open>
  The operators \<open>+\<close>, \<open>-\<close>, \<open><\<close> and \<open>>\<close> on numbers. A sum of finite numbers is the
  rounded exact sum; \<open>x - y\<close> is \<open>x + (-y)\<close>; a comparison with NaN is false.
\<close>

fun jsNeg :: "jsnum \<Rightarrow> jsnum" where
  "jsNeg (Num a) = Num (- a)"
| "jsNeg PosInf = NegInf"
| "jsNeg NegInf = PosInf"
| "jsNeg NaN = NaN"

fun jsAdd :: "jsnum \<Rightarrow> jsnum \<Rightarrow> jsnum" where
  "jsAdd (Num a) (Num b) = toNum (a + b)"
| "jsAdd NaN y = NaN"
| "jsAdd x NaN = NaN"
| "jsAdd PosInf NegInf = NaN"
| "jsAdd NegInf PosInf = NaN"
| "jsAdd PosInf y = PosInf"
| "jsAdd x PosInf = PosInf"
| "jsAdd NegInf y = NegInf"
| "jsAdd x NegInf = NegInf"

definition jsSub :: "jsnum \<Rightarrow> jsnum \<Rightarrow> jsnum" where
  "jsSub x y = jsAdd x (jsNeg y)"

fun jsLt :: "jsnum \<Rightarrow> jsnum \<Rightarrow> bool" where
  "jsLt (Num a) (Num b) = (a < b)"
| "jsLt NaN y = False"
| "jsLt x NaN = False"
| "jsLt x NegInf = False"
| "jsLt PosInf y = False"
| "jsLt NegInf y = True"
| "jsLt x PosInf = True"

definition jsGt :: "jsnum \<Rightarrow> jsnum \<Rightarrow> bool" where
  "jsGt x y = jsLt y x"

section \<open>Geometry continuity corrector (WorldMap.tsx, makeContinuous)\<close>

text \<open>
  A GeoJSON \<open>Position\<close> is used by the corrector only through its first two components,
  the longitude \<open>ring[i][0]\<close> and the latitude \<open>ring[i][1]\<close>; it is modelled as a pair of
  numbers.
\<close>

type_synonym Position = "jsnum \<times> jsnum"

text \<open>
  The offset after reading a difference (lines 55 and 56 of the source):
  \<^verbatim>\<open>if (diff > 180) offset -= 360; else if (diff < -180) offset += 360;\<close>
\<close>

definition nextOffset :: "jsnum \<Rightarrow> jsnum \<Rightarrow> jsnum" where
  "nextOffset diff offset =
     (if jsGt diff (Num 180) then jsSub offset (Num 360)
      else if jsLt diff (Num (- 180)) then jsAdd offset (Num 360)
      else offset)"

text \<open>
  The \<^verbatim>\<open>for (let i = 1; i < ring.length; i++)\<close> loop, with its three mutable variables
  \<open>i\<close>, \<open>offset\<close> and \<open>out\<close>. The index \<open>i - 1\<close> is only read for \<open>1 \<le> i\<close>: the loop starts
  at \<open>1\<close>.
\<close>

function makeContinuous_loop :: "Position list \<Rightarrow> nat \<Rightarrow> jsnum \<Rightarrow> Position list \<Rightarrow> Position list" where
  "makeContinuous_loop ring i offset out =
     (if i < length ring then
        (let diff = jsSub (fst (ring ! i)) (fst (ring ! (i - 1)));
             offset' = nextOffset diff offset
         in makeContinuous_loop ring (i + 1) offset'
              (out @ [(jsAdd (fst (ring ! i)) offset', snd (ring ! i))]))
      else out)"
  by pat_completeness auto
termination
  by (relation "measure (\<lambda>(ring, i, offset, out). length ring - i)") auto

declare makeContinuous_loop.simps [simp del]

definition makeContinuous :: "Position list \<Rightarrow> Position list" where
  "makeContinuous ring =
     (if length ring < 2 then ring
      else makeContinuous_loop ring 1 (Num 0) [ring ! 0])"

text \<open>
  The reference definition, written from the words of the specification: a running offset
  starts at \<open>0\<close>, has \<open>360\<close> subtracted when the difference between two consecutive raw
  longitudes exceeds \<open>180\<close> and \<open>360\<close> added when it is below \<open>-180\<close>; the offset current
  at a point is added to that point's longitude. The first point is never offset, and rings
  with fewer than two points pass through unchanged. Differences, sums and comparisons are
  those of the program's numbers.
\<close>

fun runningOffset :: "Position list \<Rightarrow> nat \<Rightarrow> jsnum" where
  "runningOffset ring 0 = Num 0"
| "runningOffset ring (Suc i) =
     (let d = jsSub (fst (ring ! Suc i)) (fst (ring ! i))
      in if jsGt d (Num 180) then jsSub (runningOffset ring i) (Num 360)
         else if jsLt d (Num (- 180)) then jsAdd (runningOffset ring i) (Num 360)
         else runningOffset ring i)"

definition correctedPoint :: "Position list \<Rightarrow> nat \<Rightarrow> Position" where
  "correctedPoint ring i =
     (if i = 0 then ring ! 0
      else (jsAdd (fst (ring ! i)) (runningOffset ring i), snd (ring ! i)))"

definition makeContinuous_spec :: "Position list \<Rightarrow> Position list" where
  "makeContinuous_spec ring =
     (if length ring < 2 then ring
      else map (correctedPoint ring) [0..<length ring])"

text \<open>A valid longitude: a finite number between \<open>-180\<close> and \<open>180\<close>.\<close>

fun validLongitude :: "jsnum \<Rightarrow> bool" where
  "validLongitude (Num x) = (- 180 \<le> x \<and> x \<le> 180)"
| "validLongitude y = False"

section \<open>Dataset (types of app/data/subreddits)\<close>

text \<open>
  The module \<^verbatim>\<open>@/app/data/subreddits\<close> is not among the sources. The records below list
  the fields that WorldMap.tsx and InfoPanel.tsx read from its three types; a field \<open>f\<close> of
  a type is named with the type's prefix (\<open>city.name\<close> is \<open>city_name\<close>, \<open>country.id\<close> is
  \<open>country_id\<close>). Member counts are natural numbers. \<open>city.places\<close> is optional.
\<close>

record PlaceSubreddit =
  place_name :: string
  place_subreddit :: string
  place_subscribers :: nat
  place_coordinates :: "real \<times> real"

record CitySubreddit =
  city_name :: string
  city_subreddit :: string
  city_subscribers :: nat
  city_coordinates :: "real \<times> real"
  places :: "PlaceSubreddit list option"

record CountrySubreddit =
  country_id :: string
  country_name :: string
  country_subreddit :: string
  country_subscribers :: nat
  cities :: "CitySubreddit list"

text \<open>
  The React state \<^verbatim>\<open>selected\<close> (line 72): three nullable references.
\<close>

record Selected =
  sel_country :: "CountrySubreddit option"
  sel_city :: "CitySubreddit option"
  sel_place :: "PlaceSubreddit option"

definition noSelection :: Selected where
  "noSelection = \<lparr>sel_country = None, sel_city = None, sel_place = None\<rparr>"

section \<open>Level-of-detail marker planner (WorldMap.tsx, lines 207 to 321)\<close>

text \<open>The Leaflet path options that the component sets.\<close>

record PathOptions =
  fillColor :: string
  fillOpacity :: real
  color :: string
  weight :: real

record Tooltip =
  content :: string
  permanent :: bool
  direction :: string
  tooltipOffset :: "real \<times> real"
  className :: string

text \<open>
  A circle marker as the effect builds it: position, radius, options, the tooltip bound to
  it, and the arguments that its click handler passes to the selection action.
\<close>

record 'a CircleMarker =
  latlng :: "real \<times> real"
  radius :: real
  options :: PathOptions
  tooltip :: Tooltip
  onClick :: 'a

text \<open>
  \<^verbatim>\<open>Math.max(4, Math.log10(city.subscribers) * 2)\<close>: for a count of \<open>0\<close> the logarithm is
  \<open>-Infinity\<close> and the maximum is the first argument.
\<close>

definition cityRadius :: "CitySubreddit \<Rightarrow> real" where
  "cityRadius c =
     (if city_subscribers c = 0 then 4
      else max 4 (log 10 (real (city_subscribers c)) * 2))"

definition placeRadius :: "PlaceSubreddit \<Rightarrow> real" where
  "placeRadius p =
     (if place_subscribers p = 0 then 10
      else max 10 ((log 10 (real (place_subscribers p)) - 2) * 4))"

text \<open>
  \<^verbatim>\<open>selected.city?.name === city.name && selected.country?.id === country.id\<close>: a null
  reference gives \<open>undefined\<close>, which is not equal to a string.
\<close>

definition cityIsActive :: "Selected \<Rightarrow> CountrySubreddit \<Rightarrow> CitySubreddit \<Rightarrow> bool" where
  "cityIsActive sel cn ci =
     (map_option city_name (sel_city sel) = Some (city_name ci) \<and>
      map_option country_id (sel_country sel) = Some (country_id cn))"

text \<open>
  \<^verbatim>\<open>selected.place?.name === place.name && selected.city?.name === city.name\<close>
\<close>

definition placeIsActive :: "Selected \<Rightarrow> CitySubreddit \<Rightarrow> PlaceSubreddit \<Rightarrow> bool" where
  "placeIsActive sel ci pl =
     (map_option place_name (sel_place sel) = Some (place_name pl) \<and>
      map_option city_name (sel_city sel) = Some (city_name ci))"

text \<open>
  \<^verbatim>\<open>zoom >= 10 ? 0 : zoom >= 8 ? 30000 : zoom >= 6 ? 100000 : Infinity\<close> and
  \<^verbatim>\<open>zoom >= 14 ? 0 : zoom >= 12 ? 3000 : Infinity\<close>. The thresholds are extended natural
  numbers: \<open>Infinity\<close> is above every member count.
\<close>

definition labelMinSubs :: "real \<Rightarrow> enat" where
  "labelMinSubs z =
     (if z \<ge> 10 then 0 else if z \<ge> 8 then 30000 else if z \<ge> 6 then 100000 else \<infinity>)"

definition placeLabelMin :: "real \<Rightarrow> enat" where
  "placeLabelMin z = (if z \<ge> 14 then 0 else if z \<ge> 12 then 3000 else \<infinity>)"

definition cityMarker ::
  "real \<Rightarrow> Selected \<Rightarrow> CountrySubreddit \<Rightarrow> CitySubreddit
     \<Rightarrow> (CountrySubreddit \<times> CitySubreddit) CircleMarker" where
  "cityMarker z sel cn ci =
     (let r = cityRadius ci;
          isActive = cityIsActive sel cn ci
      in \<lparr>latlng = (snd (city_coordinates ci), fst (city_coordinates ci)),
          radius = (if isActive then r + 3 else r),
          options = \<lparr>fillColor = (if isActive then ''#FFD700'' else ''#FF6B35''),
                     fillOpacity = 0.85,
                     color = (if isActive then ''#fff'' else ''#FF8C00''),
                     weight = (if isActive then 2 else 1)\<rparr>,
          tooltip =
            (if enat (city_subscribers ci) \<ge> labelMinSubs z then
               \<lparr>content = city_name ci, permanent = True, direction = ''top'',
                tooltipOffset = (0, - (r + 4)), className = ''city-label''\<rparr>
             else
               \<lparr>content = ''r/'' @ city_subreddit ci, permanent = False, direction = ''top'',
                tooltipOffset = (0, 0), className = ''subreddit-tooltip''\<rparr>),
          onClick = (cn, ci)\<rparr>)"

definition placeMarker ::
  "real \<Rightarrow> Selected \<Rightarrow> CountrySubreddit \<Rightarrow> CitySubreddit \<Rightarrow> PlaceSubreddit
     \<Rightarrow> (CountrySubreddit \<times> CitySubreddit \<times> PlaceSubreddit) CircleMarker" where
  "placeMarker z sel cn ci pl =
     (let r = placeRadius pl;
          isActive = placeIsActive sel ci pl
      in \<lparr>latlng = (snd (place_coordinates pl), fst (place_coordinates pl)),
          radius = (if isActive then r + 3 else r),
          options = \<lparr>fillColor = (if isActive then ''#e9d5ff'' else ''#c084fc''),
                     fillOpacity = 0.8,
                     color = (if isActive then ''#fff'' else ''#a855f7''),
                     weight = (if isActive then 2 else 1)\<rparr>,
          tooltip =
            (if enat (place_subscribers pl) \<ge> placeLabelMin z then
               \<lparr>content = place_name pl, permanent = True, direction = ''top'',
                tooltipOffset = (0, - (r + 3)), className = ''place-label''\<rparr>
             else
               \<lparr>content = ''r/'' @ place_subreddit pl, permanent = False, direction = ''top'',
                tooltipOffset = (0, 0), className = ''subreddit-tooltip''\<rparr>),
          onClick = (cn, ci, pl)\<rparr>)"

text \<open>
  The two marker groups after the effect has run: both are cleared first, so each is
  exactly what the loops add. A city without \<open>places\<close> is skipped by \<^verbatim>\<open>continue\<close>.
  The \<open>mouseover\<close> and \<open>mouseout\<close> handlers of a place marker change the radius and the
  opacity of that marker for the time of the hover; they are not part of the plan.
\<close>

definition cityMarkers ::
  "real \<Rightarrow> Selected \<Rightarrow> CountrySubreddit list
     \<Rightarrow> (CountrySubreddit \<times> CitySubreddit) CircleMarker list" where
  "cityMarkers z sel ds =
     (if z \<ge> 4 then concat (map (\<lambda>cn. map (cityMarker z sel cn) (cities cn)) ds)
      else [])"

definition placeMarkers ::
  "real \<Rightarrow> Selected \<Rightarrow> CountrySubreddit list
     \<Rightarrow> (CountrySubreddit \<times> CitySubreddit \<times> PlaceSubreddit) CircleMarker list" where
  "placeMarkers z sel ds =
     (if z \<ge> 10 then
        concat (map (\<lambda>cn. concat (map (\<lambda>ci.
          (case places ci of
             None \<Rightarrow> []
           | Some ps \<Rightarrow> map (placeMarker z sel cn ci) ps)) (cities cn))) ds)
      else [])"

text \<open>
  The thresholds in the words of the specification: zoom bands with a member count to
  reach, or no attainable count at all.
\<close>

definition T_city :: "real \<Rightarrow> enat" where
  "T_city z =
     (if 10 \<le> z then 0
      else if 8 \<le> z \<and> z < 10 then 30000
      else if 6 \<le> z \<and> z < 8 then 100000
      else \<infinity>)"

definition T_place :: "real \<Rightarrow> enat" where
  "T_place z =
     (if 14 \<le> z then 0
      else if 12 \<le> z \<and> z < 14 then 3000
      else \<infinity>)"

text \<open>The entities of a dataset, in the order of the nested loops.\<close>

definition allCities :: "CountrySubreddit list \<Rightarrow> (CountrySubreddit \<times> CitySubreddit) list" where
  "allCities ds = concat (map (\<lambda>cn. map (\<lambda>ci. (cn, ci)) (cities cn)) ds)"

definition allPlaces ::
  "CountrySubreddit list \<Rightarrow> (CountrySubreddit \<times> CitySubreddit \<times> PlaceSubreddit) list" where
  "allPlaces ds =
     concat (map (\<lambda>cn. concat (map (\<lambda>ci.
       (case places ci of None \<Rightarrow> [] | Some ps \<Rightarrow> map (\<lambda>pl. (cn, ci, pl)) ps))
       (cities cn))) ds)"

section \<open>Selection state machine and style synchronisation (WorldMap.tsx)\<close>

text \<open>
  A Leaflet path is an object with identity; it is modelled by an address, and the options
  of all paths by a store from addresses to options.
\<close>

type_synonym Path = nat

text \<open>
  What the component closes over and never changes: the dataset \<open>countrySubreddits\<close>, the
  lookup table \<open>countryMap\<close> (\<open>countryMap.get(id)\<close> is \<open>countryMap env id\<close>, with \<open>None\<close> for
  \<open>undefined\<close>), both imported from the data module and taken as parameters, and the layers
  that \<open>L.geoJSON\<close> created from the fetched features: \<open>featureOf env p\<close> is \<open>String(f.id)\<close>
  of the feature drawn by the path \<open>p\<close>, and \<open>None\<close> when \<open>p\<close> is no such layer.
\<close>

record Env =
  countrySubreddits :: "CountrySubreddit list"
  countryMap :: "string \<Rightarrow> CountrySubreddit option"
  featureOf :: "Path \<Rightarrow> string option"

text \<open>
  The mutable state: the React states \<open>selected\<close> and \<open>zoom\<close>, the ref \<open>selectedLayerRef\<close>
  and the options of the paths. The registry \<open>countryLayersRef\<close> is written once per feature
  and never read by the component; it is left out.
\<close>

record State =
  selected :: Selected
  zoom :: real
  selectedLayerRef :: "Path option"
  pathStyle :: "Path \<Rightarrow> PathOptions"

text \<open>
  \<open>onEachFeature\<close> (line 155): the country the handlers of a path are bound to, found as
  \<open>countryMap.get(String(f.id))\<close>. Paths without a country get no handler.
\<close>

definition boundCountry :: "Env \<Rightarrow> Path \<Rightarrow> CountrySubreddit option" where
  "boundCountry env p =
     (case featureOf env p of None \<Rightarrow> None | Some fid \<Rightarrow> countryMap env fid)"

text \<open>The \<open>style\<close> callback of \<open>L.geoJSON\<close> (line 146).\<close>

definition initialStyle :: "Env \<Rightarrow> Path \<Rightarrow> PathOptions" where
  "initialStyle env p =
     (case boundCountry env p of
        Some c \<Rightarrow> \<lparr>fillColor = ''#FF4500'', fillOpacity = 0.08,
                   color = ''rgba(255,69,0,0.3)'', weight = 1\<rparr>
      | None \<Rightarrow> \<lparr>fillColor = ''transparent'', fillOpacity = 0,
                 color = ''transparent'', weight = 0\<rparr>)"

definition DEFAULT_ZOOM :: real where
  "DEFAULT_ZOOM = 3"

definition initialState :: "Env \<Rightarrow> State" where
  "initialState env =
     \<lparr>selected = noSelection, zoom = DEFAULT_ZOOM, selectedLayerRef = None,
      pathStyle = initialStyle env\<rparr>"

text \<open>\<open>path.setStyle({ fillOpacity: fo, weight: w })\<close>: the other options are kept.\<close>

definition setStyle :: "Path \<Rightarrow> real \<Rightarrow> real \<Rightarrow> State \<Rightarrow> State" where
  "setStyle p fo w s =
     s\<lparr>pathStyle := (pathStyle s)(p := (pathStyle s p)\<lparr>fillOpacity := fo, weight := w\<rparr>)\<rparr>"

text \<open>The three styles of a country path, by the two options that \<open>setStyle\<close> writes.\<close>

definition isDefaultStyle :: "PathOptions \<Rightarrow> bool" where
  "isDefaultStyle st = (fillOpacity st = 0.08 \<and> weight st = 1)"

definition isHighlightStyle :: "PathOptions \<Rightarrow> bool" where
  "isHighlightStyle st = (fillOpacity st = 0.2 \<and> weight st = 2)"

definition isHoverStyle :: "PathOptions \<Rightarrow> bool" where
  "isHoverStyle st = (fillOpacity st = 0.3 \<and> weight st = 1.5)"

text \<open>
  \<open>actionsRef.current.selectCountry\<close> (lines 85 to 96), statement by statement: the list
  holds the state after the conditional of line 89, after the assignment of line 92, after
  the call of line 93 and after \<open>setSelected\<close> of line 95. It is empty when the lookup of
  line 86 finds nothing and the function returns at line 87.
\<close>

definition selectCountry_steps :: "Env \<Rightarrow> string \<Rightarrow> Path \<Rightarrow> State \<Rightarrow> State list" where
  "selectCountry_steps env cid layer s =
     (case countryMap env cid of
        None \<Rightarrow> []
      | Some c \<Rightarrow>
          (let s1 = (case selectedLayerRef s of
                       None \<Rightarrow> s
                     | Some old \<Rightarrow> if old \<noteq> layer then setStyle old 0.08 1 s else s);
               s2 = s1\<lparr>selectedLayerRef := Some layer\<rparr>;
               s3 = setStyle layer 0.2 2 s2;
               s4 = s3\<lparr>selected := \<lparr>sel_country = Some c, sel_city = None, sel_place = None\<rparr>\<rparr>
           in [s1, s2, s3, s4]))"

definition selectCountry :: "Env \<Rightarrow> string \<Rightarrow> Path \<Rightarrow> State \<Rightarrow> State" where
  "selectCountry env cid layer s = last (s # selectCountry_steps env cid layer s)"

definition selectCity :: "CountrySubreddit \<Rightarrow> CitySubreddit \<Rightarrow> State \<Rightarrow> State" where
  "selectCity cn ci s =
     s\<lparr>selected := \<lparr>sel_country = Some cn, sel_city = Some ci, sel_place = None\<rparr>\<rparr>"

definition selectPlace ::
  "CountrySubreddit \<Rightarrow> CitySubreddit \<Rightarrow> PlaceSubreddit \<Rightarrow> State \<Rightarrow> State" where
  "selectPlace cn ci pl s =
     s\<lparr>selected := \<lparr>sel_country = Some cn, sel_city = Some ci, sel_place = Some pl\<rparr>\<rparr>"

definition resetSelectedLayer :: "State \<Rightarrow> State" where
  "resetSelectedLayer s =
     (case selectedLayerRef s of
        None \<Rightarrow> s
      | Some p \<Rightarrow> (setStyle p 0.08 1 s)\<lparr>selectedLayerRef := None\<rparr>)"

definition handleBack :: "State \<Rightarrow> State" where
  "handleBack s =
     (if sel_place (selected s) \<noteq> None then
        s\<lparr>selected := (selected s)\<lparr>sel_place := None\<rparr>\<rparr>
      else if sel_city (selected s) \<noteq> None then
        s\<lparr>selected := (selected s)\<lparr>sel_city := None, sel_place := None\<rparr>\<rparr>
      else
        (resetSelectedLayer s)\<lparr>selected := noSelection\<rparr>)"

definition handleClose :: "State \<Rightarrow> State" where
  "handleClose s = (resetSelectedLayer s)\<lparr>selected := noSelection\<rparr>"

text \<open>The \<open>mouseover\<close> and \<open>mouseout\<close> handlers of a country path (lines 173 to 184).\<close>

definition pathMouseover :: "Path \<Rightarrow> State \<Rightarrow> State" where
  "pathMouseover p s = (if selectedLayerRef s \<noteq> Some p then setStyle p 0.3 1.5 s else s)"

definition pathMouseout :: "Path \<Rightarrow> State \<Rightarrow> State" where
  "pathMouseout p s = (if selectedLayerRef s \<noteq> Some p then setStyle p 0.08 1 s else s)"

text \<open>
  The wiring of the panel (lines 364 to 372) and the lists the panel shows (InfoPanel.tsx,
  lines 115 to 131). The panel sorts a copy of the list for display; an item is named here
  by its index in the dataset's list.
\<close>

definition onCityClick :: "CitySubreddit \<Rightarrow> State \<Rightarrow> State" where
  "onCityClick ci s =
     (case sel_country (selected s) of
        None \<Rightarrow> s
      | Some cn \<Rightarrow> selectCity cn ci s)"

definition onPlaceClick :: "PlaceSubreddit \<Rightarrow> State \<Rightarrow> State" where
  "onPlaceClick pl s =
     (case sel_country (selected s) of
        None \<Rightarrow> s
      | Some cn \<Rightarrow>
          (case sel_city (selected s) of
             None \<Rightarrow> s
           | Some ci \<Rightarrow> selectPlace cn ci pl s))"

definition panelCities :: "Selected \<Rightarrow> CitySubreddit list" where
  "panelCities sel =
     (case sel_country sel of
        Some cn \<Rightarrow> if sel_city sel = None \<and> sel_place sel = None then cities cn else []
      | None \<Rightarrow> [])"

definition panelPlaces :: "Selected \<Rightarrow> PlaceSubreddit list" where
  "panelPlaces sel =
     (case sel_city sel of
        Some ci \<Rightarrow>
          (if sel_place sel = None then (case places ci of Some ps \<Rightarrow> ps | None \<Rightarrow> [])
           else [])
      | None \<Rightarrow> [])"

text \<open>
  The events of the component. A marker is named by its index in the group of the current
  plan, a panel item by its index in the list shown. The Escape key and the panel's back
  button both run \<open>handleBack\<close>; the panel's close button and the reset button both run
  \<open>handleClose\<close>. An event on something that does not exist leaves the state as it is.
\<close>

datatype Event =
    PathClick Path
  | PathMouseover Path
  | PathMouseout Path
  | CityMarkerClick nat
  | PlaceMarkerClick nat
  | PanelCityClick nat
  | PanelPlaceClick nat
  | Back
  | Close
  | ZoomEnd real

fun step :: "Env \<Rightarrow> State \<Rightarrow> Event \<Rightarrow> State" where
  "step env s (PathClick p) =
     (case boundCountry env p of
        None \<Rightarrow> s
      | Some c \<Rightarrow> selectCountry env (country_id c) p s)"
| "step env s (PathMouseover p) =
     (case boundCountry env p of None \<Rightarrow> s | Some c \<Rightarrow> pathMouseover p s)"
| "step env s (PathMouseout p) =
     (case boundCountry env p of None \<Rightarrow> s | Some c \<Rightarrow> pathMouseout p s)"
| "step env s (CityMarkerClick k) =
     (let ms = cityMarkers (zoom s) (selected s) (countrySubreddits env)
      in if k < length ms then selectCity (fst (onClick (ms ! k))) (snd (onClick (ms ! k))) s
         else s)"
| "step env s (PlaceMarkerClick k) =
     (let ms = placeMarkers (zoom s) (selected s) (countrySubreddits env)
      in if k < length ms then
           selectPlace (fst (onClick (ms ! k))) (fst (snd (onClick (ms ! k))))
             (snd (snd (onClick (ms ! k)))) s
         else s)"
| "step env s (PanelCityClick k) =
     (let items = panelCities (selected s)
      in if k < length items then onCityClick (items ! k) s else s)"
| "step env s (PanelPlaceClick k) =
     (let items = panelPlaces (selected s)
      in if k < length items then onPlaceClick (items ! k) s else s)"
| "step env s Back = handleBack s"
| "step env s Close = handleClose s"
| "step env s (ZoomEnd z) = s\<lparr>zoom := z\<rparr>"

definition run :: "Env \<Rightarrow> Event list \<Rightarrow> State" where
  "run env es = foldl (step env) (initialState env) es"

text \<open>Clicks on city and place markers, which select a country without going through a path.\<close>

fun isMarkerClick :: "Event \<Rightarrow> bool" where
  "isMarkerClick (CityMarkerClick k) = True"
| "isMarkerClick (PlaceMarkerClick k) = True"
| "isMarkerClick e = False"

text \<open>The selection is nested in the dataset: a child is selected under its parents.\<close>

definition nested :: "Selected \<Rightarrow> bool" where
  "nested sel =
     (case sel_place sel of
        Some pl \<Rightarrow>
          (case sel_city sel of
             Some ci \<Rightarrow>
               (case sel_country sel of
                  Some cn \<Rightarrow>
                    ci \<in> set (cities cn) \<and>
                    (case places ci of Some ps \<Rightarrow> pl \<in> set ps | None \<Rightarrow> False)
                | None \<Rightarrow> False)
           | None \<Rightarrow> False)
      | None \<Rightarrow>
          (case sel_city sel of
             Some ci \<Rightarrow>
               (case sel_country sel of
                  Some cn \<Rightarrow> ci \<in> set (cities cn)
                | None \<Rightarrow> False)
           | None \<Rightarrow> True))"

text \<open>
  The lookup table is keyed by identifier: a country found under some key is found under
  its own \<open>id\<close>. The table itself is not among the sources; this is what the specification
  says of it (the country is looked up by id).
\<close>

definition keyedById :: "Env \<Rightarrow> bool" where
  "keyedById env = (\<forall>k c. countryMap env k = Some c \<longrightarrow> countryMap env (country_id c) = Some c)"

text \<open>
  The invariant of the style synchronisation: only the path stored in \<open>selectedLayerRef\<close>
  carries the highlight style, it does carry it, it is a path bound to the selected country,
  and without a stored path no country is selected.
\<close>

definition highlightInv :: "Env \<Rightarrow> State \<Rightarrow> bool" where
  "highlightInv env s =
     ((\<forall>p. isHighlightStyle (pathStyle s p) \<longrightarrow> selectedLayerRef s = Some p) \<and>
      (\<forall>p. selectedLayerRef s = Some p \<longrightarrow>
           isHighlightStyle (pathStyle s p) \<and>
           sel_country (selected s) \<noteq> None \<and>
           boundCountry env p = sel_country (selected s)) \<and>
      (selectedLayerRef s = None \<longrightarrow> sel_country (selected s) = None))"

section \<open>A small dataset for the concrete examples\<close>

text \<open>
  Two countries with a city of the same name, each with a neighbourhood of the same name,
  and a city that declares no places. Identifiers are unique within their parent.
\<close>

definition exWestminsterGB :: PlaceSubreddit where
  "exWestminsterGB =
     \<lparr>place_name = ''Westminster'', place_subreddit = ''westminster'',
      place_subscribers = 5000, place_coordinates = (0, 51)\<rparr>"

definition exWestminsterCA :: PlaceSubreddit where
  "exWestminsterCA =
     \<lparr>place_name = ''Westminster'', place_subreddit = ''westminsterldnont'',
      place_subscribers = 1000, place_coordinates = (- 81, 43)\<rparr>"

definition exLondonGB :: CitySubreddit where
  "exLondonGB =
     \<lparr>city_name = ''London'', city_subreddit = ''london'', city_subscribers = 1200000,
      city_coordinates = (0, 51), places = Some [exWestminsterGB]\<rparr>"

definition exLeeds :: CitySubreddit where
  "exLeeds =
     \<lparr>city_name = ''Leeds'', city_subreddit = ''Leeds'', city_subscribers = 20000,
      city_coordinates = (- 2, 54), places = None\<rparr>"

definition exLondonCA :: CitySubreddit where
  "exLondonCA =
     \<lparr>city_name = ''London'', city_subreddit = ''londonontario'', city_subscribers = 90000,
      city_coordinates = (- 81, 43), places = Some [exWestminsterCA]\<rparr>"

definition exGB :: CountrySubreddit where
  "exGB =
     \<lparr>country_id = ''826'', country_name = ''United Kingdom'',
      country_subreddit = ''unitedkingdom'', country_subscribers = 3000000,
      cities = [exLondonGB, exLeeds]\<rparr>"

definition exCA :: CountrySubreddit where
  "exCA =
     \<lparr>country_id = ''124'', country_name = ''Canada'',
      country_subreddit = ''canada'', country_subscribers = 2000000,
      cities = [exLondonCA]\<rparr>"

text \<open>
  An environment over this dataset: the table maps an identifier to its country, path \<open>10\<close>
  draws the feature \<open>826\<close>, path \<open>20\<close> the feature \<open>124\<close>, and path \<open>30\<close> a feature that is
  not in the table.
\<close>

definition exEnv :: Env where
  "exEnv =
     \<lparr>countrySubreddits = [exGB, exCA],
      countryMap = (\<lambda>k. if k = ''826'' then Some exGB else if k = ''124'' then Some exCA else None),
      featureOf = (\<lambda>p. if p = 10 then Some ''826'' else if p = 20 then Some ''124''
                        else if p = 30 then Some ''010'' else None)\<rparr>"

section \<open>Properties of the rounding\<close>

lemma roundHalfEven_of_int: "roundHalfEven (of_int n) = n"
  by (simp add: roundHalfEven_def)

lemma roundHalfEven_error: "\<bar>of_int (roundHalfEven y) - y\<bar> \<le> 1 / 2"
proof -
  have "of_int \<lfloor>y\<rfloor> \<le> y" "y < of_int \<lfloor>y\<rfloor> + 1" by linarith+
  then show ?thesis
    by (auto simp: roundHalfEven_def Let_def abs_le_iff)
qed

lemma ulp_pos: "0 < ulp x"
  by (simp add: ulp_def)

lemma roundDouble_abs_error: "\<bar>roundDouble x - x\<bar> \<le> ulp x / 2"
proof (cases "x = 0")
  case True
  then show ?thesis using ulp_pos [of x] by (simp add: roundDouble_def)
next
  case False
  let ?n = "of_int (roundHalfEven (x / ulp x)) :: real"
  have "?n * ulp x - x = (?n - x / ulp x) * ulp x"
    using ulp_pos [of x] by (simp add: left_diff_distrib)
  then have "\<bar>?n * ulp x - x\<bar> = \<bar>?n - x / ulp x\<bar> * ulp x"
    using ulp_pos [of x] by (simp only: abs_mult abs_of_pos)
  also have "\<dots> \<le> (1 / 2) * ulp x"
    using roundHalfEven_error [of "x / ulp x"] ulp_pos [of x]
    by (intro mult_right_mono) simp_all
  finally show ?thesis using False by (simp add: roundDouble_def)
qed

lemma binade_normal:
  assumes "- 1022 \<le> \<lfloor>log 2 \<bar>x\<bar>\<rfloor>"
  shows "binade x = \<lfloor>log 2 \<bar>x\<bar>\<rfloor>"
  by (simp only: binade_def max_absorb1 [OF assms])

lemma binade_le: 
  assumes "x \<noteq> 0" and "- 1022 \<le> \<lfloor>log 2 \<bar>x\<bar>\<rfloor>"
  shows "2 powr (of_int (binade x)) \<le> \<bar>x\<bar>"
proof -
  have "of_int \<lfloor>log 2 \<bar>x\<bar>\<rfloor> \<le> log 2 \<bar>x\<bar>" by simp
  then have "2 powr (of_int \<lfloor>log 2 \<bar>x\<bar>\<rfloor>) \<le> 2 powr (log 2 \<bar>x\<bar>)"
    by (simp only: powr_le_cancel_iff) 
  also have "\<dots> = \<bar>x\<bar>" using assms(1) by simp
  finally show ?thesis by (simp only: binade_normal [OF assms(2)])
qed

lemma roundDouble_error: "\<bar>roundDouble x - x\<bar> \<le> \<bar>x\<bar> / 2 ^ 53 + halfMinSubnormal"
proof (cases "x = 0")
  case True
  then show ?thesis by (simp add: roundDouble_def halfMinSubnormal_def)
next
  case False
  have hp: "0 \<le> halfMinSubnormal" by (simp add: halfMinSubnormal_def)
  show ?thesis
  proof (cases "- 1022 \<le> \<lfloor>log 2 \<bar>x\<bar>\<rfloor>")
    case True
    have "ulp x = 2 powr (of_int (binade x)) / 2 ^ 52"
      by (simp add: ulp_def powr_diff)
    also have "\<dots> \<le> \<bar>x\<bar> / 2 ^ 52"
      using binade_le [OF False True] by (simp add: divide_right_mono)
    finally have "ulp x / 2 \<le> \<bar>x\<bar> / 2 ^ 53" by simp
    with roundDouble_abs_error [of x] hp show ?thesis by linarith
  next
    case False
    then have "binade x = - 1022" by (simp only: binade_def max_def) auto
    then have "ulp x = 2 powr (- 1074)" by (simp add: ulp_def)
    then have "ulp x / 2 = 2 powr (- 1074) * 2 powr (- 1)"
      by (simp only: powr_minus powr_one) simp
    also have "\<dots> = halfMinSubnormal"
      by (simp only: powr_add [symmetric] halfMinSubnormal_def) simp
    finally have "ulp x / 2 = halfMinSubnormal" .
    with roundDouble_abs_error [of x] show ?thesis by simp
  qed
qed

lemma halfMinSubnormal_small: "halfMinSubnormal \<le> 1 / 2 ^ 60"
proof -
  have "(2::real) powr (- 1075) \<le> 2 powr (- 60)"
    by (rule powr_mono) simp_all
  also have "(2::real) powr (- 60) = 1 / 2 ^ 60"
    by (simp add: powr_minus_divide)
  finally show ?thesis by (simp only: halfMinSubnormal_def)
qed


lemma overflowThreshold_large: "2 ^ 60 \<le> overflowThreshold"
proof -
  have "(2::real) ^ 60 = 2 powr 60" by simp
  also have "\<dots> \<le> 2 powr 1024" by (rule powr_mono) simp_all
  finally show ?thesis by (simp only: overflowThreshold_def)
qed

lemma roundDouble_of_int:
  assumes "\<bar>n\<bar> < 2 ^ 53"
  shows "roundDouble (of_int n) = of_int n"
proof (cases "n = 0")
  case True
  then show ?thesis by (simp add: roundDouble_def)
next
  case False
  let ?x = "of_int n :: real"
  let ?k = "\<lfloor>log 2 \<bar>?x\<bar>\<rfloor>"
  have x1: "1 \<le> \<bar>?x\<bar>" using False by (simp flip: of_int_abs)
  have x2: "\<bar>?x\<bar> < 2 ^ 53" using assms by (simp flip: of_int_abs) 
  have k0: "0 \<le> ?k" using x1 by simp
  have "log 2 \<bar>?x\<bar> < log 2 (2 ^ 53)"
    using x1 x2 by (subst log_less_cancel_iff) simp_all
  also have "log 2 (2 ^ 53 :: real) = real 53" by (rule log_pow_cancel) simp_all
  finally have k1: "?k \<le> 52" by (simp add: floor_le_iff)
  have b: "binade ?x = ?k" using k0 by (intro binade_normal) simp
  define m where "m = nat (52 - ?k)"
  have m: "of_int ?k - 52 = - real m" using k1 by (simp add: m_def)
  have u: "ulp ?x = 1 / 2 ^ m"
    unfolding ulp_def b m by (simp add: powr_minus_divide powr_realpow)
  have "?x / ulp ?x = of_int (n * 2 ^ m)" by (simp add: u)
  then have "roundHalfEven (?x / ulp ?x) = n * 2 ^ m"
    by (simp only: roundHalfEven_of_int)
  then show ?thesis
    using False by (simp add: roundDouble_def u)
qed

lemma toNum_of_int:
  assumes "\<bar>n\<bar> < 2 ^ 53"
  shows "toNum (of_int n) = Num (of_int n)"
proof -
  have "\<bar>of_int n :: real\<bar> < 2 ^ 53" using assms by (simp flip: of_int_abs)
  moreover have "(2::real) ^ 53 \<le> 2 ^ 60" by simp
  ultimately have "\<bar>of_int n :: real\<bar> < overflowThreshold"
    using overflowThreshold_large by linarith
  then show ?thesis
    by (simp add: toNum_def roundDouble_of_int [OF assms] Let_def abs_less_iff)
qed

lemma toNum_numeral [simp]:
  "(numeral k :: int) < 2 ^ 53 \<Longrightarrow> toNum (numeral k) = Num (numeral k)"
  "(numeral k :: int) < 2 ^ 53 \<Longrightarrow> toNum (- numeral k) = Num (- numeral k)"
  "toNum 0 = Num 0"
  using toNum_of_int [of "numeral k"] toNum_of_int [of "- numeral k"] toNum_of_int [of 0]
  by simp_all

lemma roundDouble_eval:
  assumes "2 ^ e \<le> \<bar>x\<bar>" and "\<bar>x\<bar> < 2 ^ Suc e" and "e \<le> 52"
  shows "roundDouble x = of_int (roundHalfEven (x * 2 ^ (52 - e))) / 2 ^ (52 - e)"
proof -
  have pos: "0 < \<bar>x\<bar>" using assms(1) by (smt (verit) zero_less_power)
  have "\<lfloor>log 2 \<bar>x\<bar>\<rfloor> = int e"
    using assms(1,2) pos
    by (subst floor_log_eq_powr_iff) (simp_all add: powr_realpow powr_add)
  then have b: "binade x = int e" by (simp add: binade_def)
  have "of_int (int e) - 52 = - real (52 - e)" using assms(3) by simp
  then have u: "ulp x = 1 / 2 ^ (52 - e)"
    unfolding ulp_def b by (simp only: powr_minus_divide powr_realpow)
  show ?thesis
    using pos by (simp add: roundDouble_def u)
qed

section \<open>Properties of the continuity corrector\<close>

subsection \<open>The loop computes the running offset\<close>

lemma makeContinuous_loop_invariant:
  "0 < i \<Longrightarrow> i \<le> length ring \<Longrightarrow> offset = runningOffset ring (i - 1) \<Longrightarrow>
   makeContinuous_loop ring i offset out = out @ map (correctedPoint ring) [i..<length ring]"
proof (induction ring i offset out rule: makeContinuous_loop.induct)
  case (1 ring i offset out)
  show ?case
  proof (cases "i < length ring")
    case True
    let ?d = "jsSub (fst (ring ! i)) (fst (ring ! (i - 1)))"
    let ?o = "nextOffset ?d offset"
    let ?out = "out @ [(jsAdd (fst (ring ! i)) ?o, snd (ring ! i))]"
    from "1.prems" obtain k where k: "i = Suc k" by (cases i) auto
    have off: "?o = runningOffset ring i"
      using "1.prems"(3) by (simp add: k nextOffset_def Let_def)
    have step: "makeContinuous_loop ring i offset out = makeContinuous_loop ring (i + 1) ?o ?out"
      using True by (subst makeContinuous_loop.simps) (simp add: Let_def)
    have ih: "makeContinuous_loop ring (i + 1) ?o ?out
        = ?out @ map (correctedPoint ring) [i + 1..<length ring]"
      using True off by (intro "1.IH" [OF True refl refl]) simp_all
    have up: "[i..<length ring] = i # [i + 1..<length ring]"
      using True by (simp add: upt_conv_Cons)
    have pt: "correctedPoint ring i = (jsAdd (fst (ring ! i)) ?o, snd (ring ! i))"
      using off by (simp add: correctedPoint_def k)
    show ?thesis
      unfolding step ih up using pt by simp
  next
    case False
    with "1.prems" have "i = length ring" by simp
    then show ?thesis
      by (subst makeContinuous_loop.simps) simp
  qed
qed

lemma makeContinuous_eq_spec: "makeContinuous ring = makeContinuous_spec ring"
proof (cases "length ring < 2")
  case True
  then show ?thesis by (simp add: makeContinuous_def makeContinuous_spec_def)
next
  case False
  then have len: "2 \<le> length ring" by simp
  have "makeContinuous_loop ring 1 (Num 0) [ring ! 0]
      = [ring ! 0] @ map (correctedPoint ring) [1..<length ring]"
    by (rule makeContinuous_loop_invariant) (use len in simp_all)
  moreover have "[0..<length ring] = 0 # [1..<length ring]"
    using len by (subst upt_conv_Cons) auto
  ultimately show ?thesis
    using False by (simp add: makeContinuous_def makeContinuous_spec_def correctedPoint_def)
qed

lemma length_makeContinuous: "length (makeContinuous ring) = length ring"
  by (simp add: makeContinuous_eq_spec makeContinuous_spec_def)

lemma makeContinuous_nth:
  assumes "i < length ring"
  shows "makeContinuous ring ! i = correctedPoint ring i"
proof (cases "length ring < 2")
  case True
  with assms have "i = 0" by simp
  with True show ?thesis by (simp add: makeContinuous_def correctedPoint_def)
next
  case False
  with assms show ?thesis
    by (simp add: makeContinuous_eq_spec makeContinuous_spec_def)
qed

lemma map_snd_makeContinuous: "map snd (makeContinuous ring) = map snd ring"
  by (rule nth_equalityI)
    (simp_all add: length_makeContinuous makeContinuous_nth correctedPoint_def)

text \<open>
  Claim C2. \<open>makeContinuous\<close> equals the reference definition \<open>makeContinuous_spec\<close>: the
  first point is unchanged, the point at an index \<open>i > 0\<close> has the running offset at \<open>i\<close>
  added to its longitude, the latitudes are those of the input, the length is that of the
  input, a ring with fewer than two points is returned unchanged, and the ring of Scenario
  A, \<open>[[170,10],[-170,10],[170,-10]]\<close>, is corrected to \<open>[[170,10],[190,10],[170,-10]]\<close>.
  The differences and sums are the double-precision ones of the program.
\<close>

theorem makeContinuous_is_reference:
  "makeContinuous ring = makeContinuous_spec ring
   \<and> length (makeContinuous ring) = length ring
   \<and> map snd (makeContinuous ring) = map snd ring
   \<and> (ring \<noteq> [] \<longrightarrow> makeContinuous ring ! 0 = ring ! 0)
   \<and> (length ring < 2 \<longrightarrow> makeContinuous ring = ring)
   \<and> (0 < i \<and> i < length ring \<longrightarrow>
        makeContinuous ring ! i
          = (jsAdd (fst (ring ! i)) (runningOffset ring i), snd (ring ! i)))
   \<and> makeContinuous [(Num 170, Num 10), (Num (- 170), Num 10), (Num 170, Num (- 10))]
        = [(Num 170, Num 10), (Num 190, Num 10), (Num 170, Num (- 10))]"
proof (intro conjI impI)
  show "makeContinuous ring = makeContinuous_spec ring"
    by (rule makeContinuous_eq_spec)
  show "length (makeContinuous ring) = length ring"
    by (rule length_makeContinuous)
  show "map snd (makeContinuous ring) = map snd ring"
    by (rule map_snd_makeContinuous)
  show "makeContinuous ring ! 0 = ring ! 0" if "ring \<noteq> []"
    using that by (simp add: makeContinuous_nth correctedPoint_def)
  show "makeContinuous ring = ring" if "length ring < 2"
    using that by (simp add: makeContinuous_def)
  show "makeContinuous ring ! i = (jsAdd (fst (ring ! i)) (runningOffset ring i), snd (ring ! i))"
    if "0 < i \<and> i < length ring"
    using that by (simp add: makeContinuous_nth correctedPoint_def)
  show "makeContinuous [(Num 170, Num 10), (Num (- 170), Num 10), (Num 170, Num (- 10))]
        = [(Num 170, Num 10), (Num 190, Num 10), (Num 170, Num (- 10))]"
    by (simp add: makeContinuous_def makeContinuous_loop.simps nextOffset_def jsSub_def jsGt_def)
qed

text \<open>The theorem of C2 on the ring of Scenario A and on a ring of one point.\<close>

theorem makeContinuous_is_reference_witness:
  "makeContinuous [(Num 170, Num 10), (Num (- 170), Num 10), (Num 170, Num (- 10))] ! 0
     = (Num 170, Num 10)
   \<and> makeContinuous [(Num 170, Num 10), (Num (- 170), Num 10), (Num 170, Num (- 10))] ! 2
     = (Num 170, Num (- 10))
   \<and> runningOffset [(Num 170, Num 10), (Num (- 170), Num 10), (Num 170, Num (- 10))] 1 = Num 360
   \<and> runningOffset [(Num 170, Num 10), (Num (- 170), Num 10), (Num 170, Num (- 10))] 2 = Num 0
   \<and> map snd (makeContinuous [(Num 170, Num 10), (Num (- 170), Num 10), (Num 170, Num (- 10))])
     = [Num 10, Num 10, Num (- 10)]
   \<and> makeContinuous [(Num 200, Num 5)] = [(Num 200, Num 5)]"
  using makeContinuous_is_reference
      [of "[(Num 170, Num 10), (Num (- 170), Num 10), (Num 170, Num (- 10))]" 2]
    makeContinuous_is_reference [of "[(Num 200, Num 5)]" 0]
  by (simp add: makeContinuous_spec_def correctedPoint_def numeral_2_eq_2 upt_rec
      jsSub_def jsGt_def eval_nat_numeral)

subsection \<open>Continuity up to rounding\<close>

lemma validLongitudeE:
  assumes "validLongitude y"
  obtains x where "y = Num x" and "- 180 \<le> x" and "x \<le> 180"
  using assms by (cases y) auto

lemma abs_triangle3:
  fixes x y e :: real
  assumes "\<bar>y - x\<bar> \<le> e"
  shows "\<bar>y\<bar> \<le> \<bar>x\<bar> + e"
  using assms by linarith

lemma toNum_moderate:
  assumes "\<bar>x\<bar> \<le> 2 ^ 50"
  shows "toNum x = Num (roundDouble x)"
proof -
  have "\<bar>x\<bar> / 2 ^ 53 \<le> 2 ^ 50 / 2 ^ 53"
    using assms by (rule divide_right_mono) simp
  then have "\<bar>x\<bar> / 2 ^ 53 \<le> 1" by simp
  moreover have "halfMinSubnormal \<le> 1"
    using halfMinSubnormal_small by simp
  ultimately have "\<bar>x\<bar> / 2 ^ 53 + halfMinSubnormal \<le> 2" by linarith
  with roundDouble_error [of x] have "\<bar>roundDouble x - x\<bar> \<le> 2" by linarith
  then have "\<bar>roundDouble x\<bar> \<le> \<bar>x\<bar> + 2" by (rule abs_triangle3)
  also have "\<dots> \<le> 2 ^ 50 + 2" using assms by simp
  also have "\<dots> < (2 ^ 60 :: real)" by simp
  finally have "\<bar>roundDouble x\<bar> < 2 ^ 60" .
  with overflowThreshold_large have "\<bar>roundDouble x\<bar> < overflowThreshold" by linarith
  then show ?thesis
    by (simp add: toNum_def Let_def abs_less_iff)
qed

lemma roundDouble_error_moderate:
  "\<bar>roundDouble x - x\<bar> \<le> \<bar>x\<bar> / 2 ^ 53 + 1 / 2 ^ 60"
  using roundDouble_error [of x] halfMinSubnormal_small by linarith

lemma runningOffset_multiple:
  assumes valid: "\<forall>p \<in> set ring. validLongitude (fst p)"
    and len: "length ring \<le> 2 ^ 32"
  shows "i < length ring \<Longrightarrow>
    \<exists>k::int. runningOffset ring i = Num ((360 * of_int k)) \<and> \<bar>k\<bar> \<le> int i"
proof (induction i)
  case 0
  show ?case by (intro exI [of _ 0]) simp
next
  case (Suc i)
  then obtain k :: int where k: "runningOffset ring i = Num ((360 * of_int k))"
    and kb: "\<bar>k\<bar> \<le> int i"
    by auto
  from Suc.prems len have ib: "int i < 2 ^ 32" by simp
  have small: "\<bar>360 * j\<bar> < 2 ^ 53" if "\<bar>j\<bar> \<le> int i + 1" for j :: int
    using that ib by simp
  have dn: "jsSub (Num ((360 * of_int k))) (Num 360) = Num ((360 * of_int (k - 1)))"
  proof -
    have "360 * of_int k + - 360 = (of_int (360 * (k - 1)) :: real)" by simp
    moreover have "toNum (of_int (360 * (k - 1))) = Num (of_int (360 * (k - 1)))"
      using kb by (intro toNum_of_int small) simp
    moreover have "(of_int (360 * (k - 1)) :: real) = 360 * of_int (k - 1)" by simp
    ultimately show ?thesis by (simp only: jsSub_def jsNeg.simps jsAdd.simps)
  qed
  have up: "jsAdd (Num ((360 * of_int k))) (Num 360) = Num ((360 * of_int (k + 1)))"
  proof -
    have "360 * of_int k + 360 = (of_int (360 * (k + 1)) :: real)" by simp
    moreover have "toNum (of_int (360 * (k + 1))) = Num (of_int (360 * (k + 1)))"
      using kb by (intro toNum_of_int small) simp
    moreover have "(of_int (360 * (k + 1)) :: real) = 360 * of_int (k + 1)" by simp
    ultimately show ?thesis by (simp only: jsAdd.simps)
  qed
  let ?d = "jsSub (fst (ring ! Suc i)) (fst (ring ! i))"
  consider "jsGt ?d (Num 180)" | "\<not> jsGt ?d (Num 180)" "jsLt ?d (Num (- 180))"
    | "\<not> jsGt ?d (Num 180)" "\<not> jsLt ?d (Num (- 180))"
    by blast
  then show ?case
  proof cases
    case 1
    then have "runningOffset ring (Suc i) = Num ((360 * of_int (k - 1)))"
      by (simp only: runningOffset.simps Let_def k dn if_True)
    moreover have "\<bar>k - 1\<bar> \<le> int (Suc i)" using kb by simp
    ultimately show ?thesis by blast
  next
    case 2
    then have "runningOffset ring (Suc i) = Num ((360 * of_int (k + 1)))"
      by (simp only: runningOffset.simps Let_def k up if_True if_False)
    moreover have "\<bar>k + 1\<bar> \<le> int (Suc i)" using kb by simp
    ultimately show ?thesis by blast
  next
    case 3
    then have "runningOffset ring (Suc i) = Num ((360 * of_int k))"
      by (simp only: runningOffset.simps Let_def k if_False)
    moreover have "\<bar>k\<bar> \<le> int (Suc i)" using kb by simp
    ultimately show ?thesis by blast
  qed
qed

text \<open>The arithmetic of one step, on real numbers.\<close>

lemma step_triangle:
  fixes d rd a b a' b' e0 ea eb :: real
  assumes d: "\<bar>d\<bar> \<le> 360"
    and rd: "\<bar>rd - d\<bar> \<le> e0"
    and ab: "a - b = d + (if rd > 180 then - 360 else if rd < - 180 then 360 else 0)"
    and a': "\<bar>a' - a\<bar> \<le> ea"
    and b': "\<bar>b' - b\<bar> \<le> eb"
  shows "\<bar>a' - b'\<bar> \<le> 180 + e0 + ea + eb"
proof -
  have m: "\<bar>a - b\<bar> \<le> 180 + e0"
  proof (cases "rd > 180")
    case True
    with ab have "a - b = d - 360" by simp
    with d rd True show ?thesis by linarith
  next
    case False
    show ?thesis
    proof (cases "rd < - 180")
      case True
      with False ab have "a - b = d + 360" by simp
      with d rd True show ?thesis by linarith
    next
      case n: False
      with False ab have "a - b = d" by simp
      with rd False n show ?thesis by linarith
    qed
  qed
  have "\<bar>a' - b'\<bar> \<le> \<bar>a - b\<bar> + \<bar>a' - a\<bar> + \<bar>b' - b\<bar>" by linarith
  with m a' b' show ?thesis by linarith
qed

lemma rounding_budget:
  fixes n :: real
  assumes "1 \<le> n"
  shows "180 + (360 / 2 ^ 53 + 1 / 2 ^ 60)
      + ((180 + 360 * n) / 2 ^ 53 + 1 / 2 ^ 60)
      + ((180 + 360 * n) / 2 ^ 53 + 1 / 2 ^ 60) \<le> 180 + n / 2 ^ 42"
  using assms by (simp add: field_simps)

lemma roundDouble_error_bounded:
  assumes "\<bar>x\<bar> \<le> c"
  shows "\<bar>roundDouble x - x\<bar> \<le> c / 2 ^ 53 + 1 / 2 ^ 60"
proof -
  have "\<bar>x\<bar> / 2 ^ 53 \<le> c / 2 ^ 53"
    using assms by (rule divide_right_mono) simp
  with roundDouble_error_moderate [of x] show ?thesis by linarith
qed

lemma offset_down:
  assumes "\<bar>k\<bar> \<le> 2 ^ 32"
  shows "jsSub (Num (360 * of_int k)) (Num 360) = Num (360 * of_int (k - 1))"
proof -
  have "\<bar>360 * (k - 1)\<bar> < 2 ^ 53" using assms by simp
  then have "toNum (of_int (360 * (k - 1))) = Num (of_int (360 * (k - 1)))"
    by (rule toNum_of_int)
  moreover have "360 * of_int k + - 360 = (of_int (360 * (k - 1)) :: real)" by simp
  moreover have "(of_int (360 * (k - 1)) :: real) = 360 * of_int (k - 1)" by simp
  ultimately show ?thesis by (simp only: jsSub_def jsNeg.simps jsAdd.simps)
qed

lemma offset_up:
  assumes "\<bar>k\<bar> \<le> 2 ^ 32"
  shows "jsAdd (Num (360 * of_int k)) (Num 360) = Num (360 * of_int (k + 1))"
proof -
  have "\<bar>360 * (k + 1)\<bar> < 2 ^ 53" using assms by simp
  then have "toNum (of_int (360 * (k + 1))) = Num (of_int (360 * (k + 1)))"
    by (rule toNum_of_int)
  moreover have "360 * of_int k + 360 = (of_int (360 * (k + 1)) :: real)" by simp
  moreover have "(of_int (360 * (k + 1)) :: real) = 360 * of_int (k + 1)" by simp
  ultimately show ?thesis by (simp only: jsAdd.simps)
qed

text \<open>
  Claim C1, as amended. For every ring of at most \<open>2^32\<close> points (the bound of a JavaScript
  array) whose longitudes are finite numbers in \<open>[-180, 180]\<close>, the ring returned by
  \<open>makeContinuous\<close> has finite longitudes, and the longitudes of the points at \<open>i - 1\<close> and
  \<open>i\<close> differ by at most \<open>180 + i / 2^42\<close> in absolute value: by at most \<open>180\<close> up to the
  rounding of the differences and sums.
\<close>

theorem makeContinuous_continuous_up_to_rounding:
  assumes valid: "\<forall>p \<in> set ring. validLongitude (fst p)"
    and len: "length ring \<le> 2 ^ 32"
    and i: "0 < i" "i < length ring"
  shows "\<exists>a b. fst (makeContinuous ring ! i) = Num a
            \<and> fst (makeContinuous ring ! (i - 1)) = Num b
            \<and> \<bar>a - b\<bar> \<le> 180 + real i / 2 ^ 42"
proof -
  from i(1) obtain j where j: "i = Suc j" by (cases i) auto
  have jl: "j < length ring" using i(2) j by simp
  from valid i(2) have "validLongitude (fst (ring ! i))" by simp
  then obtain xi where xi: "fst (ring ! i) = Num xi" and xib: "\<bar>xi\<bar> \<le> 180"
    by (auto elim!: validLongitudeE simp: abs_le_iff)
  from valid jl have "validLongitude (fst (ring ! j))" by simp
  then obtain xj where xj: "fst (ring ! j) = Num xj" and xjb: "\<bar>xj\<bar> \<le> 180"
    by (auto elim!: validLongitudeE simp: abs_le_iff)
  from runningOffset_multiple [OF valid len jl]
  obtain k :: int where k: "runningOffset ring j = Num (360 * of_int k)" and kb: "\<bar>k\<bar> \<le> int j"
    by auto
  have ib: "real i \<le> 2 ^ 32" using i(2) len by simp
  have k32: "\<bar>k\<bar> \<le> 2 ^ 32" using kb jl len by simp
  have kr: "\<bar>real_of_int k\<bar> \<le> real j"
    using kb by (metis of_int_abs of_int_le_iff of_int_of_nat_eq)
  define d where "d = xi - xj"
  define rd where "rd = roundDouble d"
  define dk :: int where "dk = (if rd > 180 then - 1 else if rd < - 180 then 1 else 0)"
  define a where "a = xi + 360 * of_int (k + dk)"
  define b where "b = xj + 360 * of_int k"
  have db: "\<bar>d\<bar> \<le> 360" using xib xjb by (simp add: d_def abs_le_iff)
  have dn: "jsSub (fst (ring ! Suc j)) (fst (ring ! j)) = Num rd"
  proof -
    have "\<bar>xi + - xj\<bar> \<le> 2 ^ 50" using db by (simp add: d_def)
    then have "toNum (xi + - xj) = Num (roundDouble (xi + - xj))" by (rule toNum_moderate)
    then show ?thesis
      using xi xj by (simp add: j jsSub_def rd_def d_def)
  qed
  have off: "runningOffset ring i = Num (360 * of_int (k + dk))"
  proof -
    have "runningOffset ring (Suc j) =
        (if rd > 180 then jsSub (Num (360 * of_int k)) (Num 360)
         else if rd < - 180 then jsAdd (Num (360 * of_int k)) (Num 360)
         else Num (360 * of_int k))"
      by (simp only: runningOffset.simps Let_def dn k jsGt_def jsLt.simps)
    also have "\<dots> = Num (360 * of_int (k + dk))"
      by (simp only: offset_down [OF k32] offset_up [OF k32] dk_def) simp
    finally show ?thesis by (simp only: j)
  qed
  have ab: "\<bar>a\<bar> \<le> 180 + 360 * real i"
  proof -
    have "\<bar>real_of_int (k + dk)\<bar> \<le> real j + 1"
      using kr by (auto simp: dk_def)
    then have "\<bar>360 * real_of_int (k + dk)\<bar> \<le> 360 * real i"
      by (simp add: j abs_mult)
    with xib show ?thesis unfolding a_def by linarith
  qed
  have bb: "\<bar>b\<bar> \<le> 180 + 360 * real i"
  proof -
    have "\<bar>360 * real_of_int k\<bar> \<le> 360 * real i"
      using kr by (simp add: j abs_mult)
    with xjb show ?thesis unfolding b_def by linarith
  qed
  have big: "180 + 360 * real i \<le> 2 ^ 50"
    using ib by simp
  have fa: "fst (makeContinuous ring ! i) = Num (roundDouble a)"
  proof -
    have "\<bar>a\<bar> \<le> 2 ^ 50" using ab big by linarith
    then have "toNum a = Num (roundDouble a)" by (rule toNum_moderate)
    then show ?thesis
      using i by (simp add: makeContinuous_nth correctedPoint_def off xi a_def)
  qed
  obtain b' where fb: "fst (makeContinuous ring ! (i - 1)) = Num b'"
    and eb: "\<bar>b' - b\<bar> \<le> (180 + 360 * real i) / 2 ^ 53 + 1 / 2 ^ 60"
  proof (cases "j = 0")
    case True
    with kb have "k = 0" by simp
    then have "b = xj" by (simp add: b_def)
    moreover have "fst (makeContinuous ring ! (i - 1)) = Num xj"
      using True jl xj by (simp add: j makeContinuous_nth correctedPoint_def)
    moreover have "0 \<le> (180 + 360 * real i) / 2 ^ 53 + 1 / (2 ^ 60 :: real)"
      by simp
    ultimately show ?thesis by (intro that [of xj]) simp_all
  next
    case False
    have "\<bar>b\<bar> \<le> 2 ^ 50" using bb big by linarith
    then have "toNum b = Num (roundDouble b)" by (rule toNum_moderate)
    then have "fst (makeContinuous ring ! (i - 1)) = Num (roundDouble b)"
      using False jl by (simp add: j makeContinuous_nth correctedPoint_def k xj b_def)
    then show ?thesis
      using roundDouble_error_bounded [OF bb] by (intro that [of "roundDouble b"])
  qed
  have e0: "\<bar>rd - d\<bar> \<le> 360 / 2 ^ 53 + 1 / 2 ^ 60"
    unfolding rd_def using db by (rule roundDouble_error_bounded)
  have ea: "\<bar>roundDouble a - a\<bar> \<le> (180 + 360 * real i) / 2 ^ 53 + 1 / 2 ^ 60"
    using ab by (rule roundDouble_error_bounded)
  have rel: "a - b = d + (if rd > 180 then - 360 else if rd < - 180 then 360 else 0)"
    by (simp add: a_def b_def d_def dk_def)
  have "\<bar>roundDouble a - b'\<bar> \<le> 180 + (360 / 2 ^ 53 + 1 / 2 ^ 60)
      + ((180 + 360 * real i) / 2 ^ 53 + 1 / 2 ^ 60)
      + ((180 + 360 * real i) / 2 ^ 53 + 1 / 2 ^ 60)"
    using db e0 rel ea eb by (rule step_triangle)
  also have "\<dots> \<le> 180 + real i / 2 ^ 42"
  proof -
    have "1 \<le> real i" using i(1) by simp
    then show ?thesis by (rule rounding_budget)
  qed
  finally show ?thesis using fa fb by blast
qed

text \<open>The theorem of C1 on the ring of Scenario A, at the pair that crosses the antimeridian.\<close>

theorem makeContinuous_continuous_witness:
  "(1::nat) < length [(Num 170, Num 10), (Num (- 170), Num 10), (Num 170, Num (- 10))]
   \<and> fst (makeContinuous [(Num 170, Num 10), (Num (- 170), Num 10), (Num 170, Num (- 10))] ! 1)
       = Num 190
   \<and> fst (makeContinuous [(Num 170, Num 10), (Num (- 170), Num 10), (Num 170, Num (- 10))] ! 0)
       = Num 170
   \<and> \<bar>190 - 170\<bar> \<le> (180 + real 1 / 2 ^ 42 :: real)"
proof -
  have h: "\<forall>p \<in> set [(Num 170, Num 10), (Num (- 170), Num 10), (Num 170, Num (- 10))].
             validLongitude (fst p)"
    by simp
  have l: "length [(Num 170, Num 10), (Num (- 170), Num 10), (Num 170, Num (- 10))] \<le> 2 ^ 32"
    by simp
  show ?thesis
    using makeContinuous_continuous_up_to_rounding [OF h l, of 1]
    by (simp add: makeContinuous_def makeContinuous_loop.simps nextOffset_def jsSub_def jsGt_def)
qed

lemma toNum_eval:
  assumes "2 ^ e \<le> \<bar>x\<bar>" and "\<bar>x\<bar> < 2 ^ Suc e" and "e \<le> 48"
  shows "toNum x = Num (of_int (roundHalfEven (x * 2 ^ (52 - e))) / 2 ^ (52 - e))"
proof -
  have "(2::real) ^ Suc e \<le> 2 ^ 50"
    using assms(3) by (intro power_increasing) simp_all
  with assms(2) have "\<bar>x\<bar> \<le> 2 ^ 50" by linarith
  then have "toNum x = Num (roundDouble x)" by (rule toNum_moderate)
  moreover have "e \<le> 52" using assms(3) by simp
  ultimately show ?thesis
    by (simp only: roundDouble_eval [OF assms(1,2)])
qed

text \<open>
  Claim C1 as stated fails twice. Without a condition on the input, a raw jump of \<open>600\<close> is
  shifted once by \<open>360\<close> and a jump of \<open>240\<close> remains. With valid longitudes, on the ring
  \<open>[[170,0],[-107.99999999999991,0],[72.00000000000009,0]]\<close> (the doubles \<open>-108 + 3/2^45\<close>
  and \<open>72 + 3/2^45\<close>) the last difference is exactly \<open>180\<close>, no shift is made, and the two
  sums with the offset \<open>360\<close> round to numbers \<open>180 + 1/2^45\<close> apart.
\<close>

theorem makeContinuous_not_continuous_counterexample:
  "makeContinuous [(Num 0, Num 0), (Num 600, Num 0)] = [(Num 0, Num 0), (Num 240, Num 0)]
   \<and> \<bar>240 - 0\<bar> > (180 :: real)
   \<and> validLongitude (Num 170) \<and> validLongitude (Num (- 108 + 3 / 2 ^ 45))
   \<and> validLongitude (Num (72 + 3 / 2 ^ 45))
   \<and> toNum (- 108 + 3 / 2 ^ 45) = Num (- 108 + 3 / 2 ^ 45)
   \<and> toNum (72 + 3 / 2 ^ 45) = Num (72 + 3 / 2 ^ 45)
   \<and> makeContinuous [(Num 170, Num 0), (Num (- 108 + 3 / 2 ^ 45), Num 0), (Num (72 + 3 / 2 ^ 45), Num 0)]
       = [(Num 170, Num 0), (Num (252 + 3 / 2 ^ 45), Num 0), (Num (432 + 1 / 2 ^ 43), Num 0)]
   \<and> \<bar>(432 + 1 / 2 ^ 43) - (252 + 3 / 2 ^ 45)\<bar> > (180 :: real)"
proof -
  define p :: real where "p = - 108 + 3 / 2 ^ 45"
  define q :: real where "q = 72 + 3 / 2 ^ 45"
  have r1: "toNum (p - 170) = Num (- 278 + 1 / 2 ^ 43)"
    unfolding p_def by (subst toNum_eval [where e = 8]) (simp_all add: roundHalfEven_def)
  have r2: "toNum (p + 360) = Num (252 + 3 / 2 ^ 45)"
    unfolding p_def by (subst toNum_eval [where e = 7]) (simp_all add: roundHalfEven_def)
  have r3: "toNum (q - p) = Num 180"
    unfolding p_def q_def by simp
  have r4: "toNum (q + 360) = Num (432 + 1 / 2 ^ 43)"
    unfolding q_def by (subst toNum_eval [where e = 8]) (simp_all add: roundHalfEven_def)
  have r5: "toNum p = Num p"
    unfolding p_def by (subst toNum_eval [where e = 6]) (simp_all add: roundHalfEven_def)
  have r6: "toNum q = Num q"
    unfolding q_def by (subst toNum_eval [where e = 6]) (simp_all add: roundHalfEven_def)
  have r0: "toNum 360 = Num 360" "toNum 0 = Num 0" by simp_all
  have lt: "- 278 + 1 / 2 ^ 43 < (- 180 :: real)" by simp
  have a: "makeContinuous [(Num 0, Num 0), (Num 600, Num 0)] = [(Num 0, Num 0), (Num 240, Num 0)]"
    by (simp add: makeContinuous_def makeContinuous_loop.simps nextOffset_def jsSub_def jsGt_def)
  have b: "makeContinuous [(Num 170, Num 0), (Num p, Num 0), (Num q, Num 0)]
       = [(Num 170, Num 0), (Num (252 + 3 / 2 ^ 45), Num 0), (Num (432 + 1 / 2 ^ 43), Num 0)]"
    using lt
    by (simp add: makeContinuous_def makeContinuous_loop.simps nextOffset_def jsSub_def jsGt_def
        r0 r1 r2 r3 r4 Let_def del: power_numeral)
  have v: "validLongitude (Num p)" "validLongitude (Num q)"
    by (simp_all add: p_def q_def)
  show ?thesis
    using a b v r5 r6 unfolding p_def q_def by simp
qed

text \<open>
  The comparison reads the rounded difference. On the ring
  \<open>[[100,0],[-80.00000000000001,0]]\<close> (the double \<open>-80 - 1/2^46\<close>) the exact difference
  is below \<open>-180\<close>, the computed one is \<open>-180\<close>, and no shift is made.
\<close>

lemma makeContinuous_rounded_difference:
  "validLongitude (Num 100) \<and> validLongitude (Num (- 80 - 1 / 2 ^ 46))
   \<and> toNum (- 80 - 1 / 2 ^ 46) = Num (- 80 - 1 / 2 ^ 46)
   \<and> (- 80 - 1 / 2 ^ 46) - 100 < (- 180 :: real)
   \<and> jsSub (Num (- 80 - 1 / 2 ^ 46)) (Num 100) = Num (- 180)
   \<and> makeContinuous [(Num 100, Num 0), (Num (- 80 - 1 / 2 ^ 46), Num 0)]
       = [(Num 100, Num 0), (Num (- 80 - 1 / 2 ^ 46), Num 0)]"
proof -
  define p :: real where "p = - 80 - 1 / 2 ^ 46"
  have r1: "toNum (p - 100) = Num (- 180)"
    unfolding p_def by (subst toNum_eval [where e = 7]) (simp_all add: roundHalfEven_def)
  have r2: "toNum p = Num p"
    unfolding p_def by (subst toNum_eval [where e = 6]) (simp_all add: roundHalfEven_def)
  have r0: "toNum 0 = Num 0" by simp
  have a: "jsSub (Num p) (Num 100) = Num (- 180)"
    by (simp add: jsSub_def r1)
  have b: "makeContinuous [(Num 100, Num 0), (Num p, Num 0)] = [(Num 100, Num 0), (Num p, Num 0)]"
    by (simp add: makeContinuous_def makeContinuous_loop.simps nextOffset_def jsGt_def a r2 Let_def
        del: power_numeral)
  have v: "validLongitude (Num p)" "p - 100 < - 180"
    by (simp_all add: p_def)
  show ?thesis
    using a b v r2 unfolding p_def by simp
qed

section \<open>Properties of the marker planner\<close>

lemma labelMinSubs_eq_T_city: "labelMinSubs z = T_city z"
  by (simp add: labelMinSubs_def T_city_def)

lemma placeLabelMin_eq_T_place: "placeLabelMin z = T_place z"
  by (simp add: placeLabelMin_def T_place_def)

lemma onClick_cityMarker: "onClick (cityMarker z sel cn ci) = (cn, ci)"
  by (simp add: cityMarker_def Let_def)

lemma onClick_placeMarker: "onClick (placeMarker z sel cn ci pl) = (cn, ci, pl)"
  by (simp add: placeMarker_def Let_def)

lemma map_onClick_cityMarkers:
  "map onClick (cityMarkers z sel ds) = (if 4 \<le> z then allCities ds else [])"
  by (simp add: cityMarkers_def allCities_def map_concat comp_def onClick_cityMarker)

lemma map_onClick_placeMarkers:
  "map onClick (placeMarkers z sel ds) = (if 10 \<le> z then allPlaces ds else [])"
proof -
  have "map onClick (case places ci of None \<Rightarrow> [] | Some ps \<Rightarrow> map (placeMarker z sel cn ci) ps)
      = (case places ci of None \<Rightarrow> [] | Some ps \<Rightarrow> map (\<lambda>pl. (cn, ci, pl)) ps)" for cn ci
    by (simp add: comp_def onClick_placeMarker split: option.split)
  then show ?thesis
    by (simp add: placeMarkers_def allPlaces_def map_concat comp_def)
qed

lemma cityMarkers_member:
  "m \<in> set (cityMarkers z sel ds) \<Longrightarrow> m = cityMarker z sel (fst (onClick m)) (snd (onClick m))"
  by (auto simp: cityMarkers_def onClick_cityMarker split: if_splits)

lemma placeMarkers_member:
  "m \<in> set (placeMarkers z sel ds) \<Longrightarrow>
   m = placeMarker z sel (fst (onClick m)) (fst (snd (onClick m))) (snd (snd (onClick m)))"
  by (auto simp: placeMarkers_def onClick_placeMarker split: if_splits option.splits)

lemma tooltip_cityMarker:
  "tooltip (cityMarker z sel cn ci) =
     (if T_city z \<le> enat (city_subscribers ci) then
        \<lparr>content = city_name ci, permanent = True, direction = ''top'',
         tooltipOffset = (0, - (cityRadius ci + 4)), className = ''city-label''\<rparr>
      else
        \<lparr>content = ''r/'' @ city_subreddit ci, permanent = False, direction = ''top'',
         tooltipOffset = (0, 0), className = ''subreddit-tooltip''\<rparr>)"
  by (simp add: cityMarker_def Let_def labelMinSubs_eq_T_city)

lemma tooltip_placeMarker:
  "tooltip (placeMarker z sel cn ci pl) =
     (if T_place z \<le> enat (place_subscribers pl) then
        \<lparr>content = place_name pl, permanent = True, direction = ''top'',
         tooltipOffset = (0, - (placeRadius pl + 3)), className = ''place-label''\<rparr>
      else
        \<lparr>content = ''r/'' @ place_subreddit pl, permanent = False, direction = ''top'',
         tooltipOffset = (0, 0), className = ''subreddit-tooltip''\<rparr>)"
  by (simp add: placeMarker_def Let_def placeLabelMin_eq_T_place)

text \<open>
  Claim C3. For every zoom level and every dataset the marker plan is exactly: one city
  marker per city of the dataset when the zoom is at least \<open>4\<close> and none below; one place
  marker per place of a city that declares places when the zoom is at least \<open>10\<close> and none
  below. The label of a city marker is permanent exactly when the city's member count
  reaches \<open>T_city\<close> of the zoom, and the label of a place marker exactly when the place's
  member count reaches \<open>T_place\<close> of the zoom; a permanent label shows the name, and a label
  that is not permanent shows the community identifier \<open>r/...\<close> instead.
\<close>

theorem marker_plan_exact:
  "map onClick (cityMarkers z sel ds) = (if 4 \<le> z then allCities ds else [])
   \<and> map onClick (placeMarkers z sel ds) = (if 10 \<le> z then allPlaces ds else [])
   \<and> (m \<in> set (cityMarkers z sel ds) \<longrightarrow>
        permanent (tooltip m) = (T_city z \<le> enat (city_subscribers (snd (onClick m))))
        \<and> content (tooltip m) =
            (if permanent (tooltip m) then city_name (snd (onClick m))
             else ''r/'' @ city_subreddit (snd (onClick m))))
   \<and> (n \<in> set (placeMarkers z sel ds) \<longrightarrow>
        permanent (tooltip n) = (T_place z \<le> enat (place_subscribers (snd (snd (onClick n)))))
        \<and> content (tooltip n) =
            (if permanent (tooltip n) then place_name (snd (snd (onClick n)))
             else ''r/'' @ place_subreddit (snd (snd (onClick n)))))"
proof (intro conjI impI)
  show "map onClick (cityMarkers z sel ds) = (if 4 \<le> z then allCities ds else [])"
    by (rule map_onClick_cityMarkers)
  show "map onClick (placeMarkers z sel ds) = (if 10 \<le> z then allPlaces ds else [])"
    by (rule map_onClick_placeMarkers)
next
  assume "m \<in> set (cityMarkers z sel ds)"
  then have m: "tooltip m = tooltip (cityMarker z sel (fst (onClick m)) (snd (onClick m)))"
    using cityMarkers_member by metis
  show "permanent (tooltip m) = (T_city z \<le> enat (city_subscribers (snd (onClick m))))"
    unfolding m tooltip_cityMarker by simp
  show "content (tooltip m) =
            (if permanent (tooltip m) then city_name (snd (onClick m))
             else ''r/'' @ city_subreddit (snd (onClick m)))"
    unfolding m tooltip_cityMarker by simp
next
  assume "n \<in> set (placeMarkers z sel ds)"
  then have n: "tooltip n = tooltip (placeMarker z sel (fst (onClick n)) (fst (snd (onClick n)))
                                       (snd (snd (onClick n))))"
    using placeMarkers_member by metis
  show "permanent (tooltip n) = (T_place z \<le> enat (place_subscribers (snd (snd (onClick n)))))"
    unfolding n tooltip_placeMarker by simp
  show "content (tooltip n) =
            (if permanent (tooltip n) then place_name (snd (snd (onClick n)))
             else ''r/'' @ place_subreddit (snd (snd (onClick n))))"
    unfolding n tooltip_placeMarker by simp
qed

text \<open>
  The theorem of C3 on the example dataset: zoom \<open>9\<close> (cities only, threshold \<open>30000\<close>),
  zoom \<open>3\<close> (nothing) and zoom \<open>12\<close> (places with threshold \<open>3000\<close>).
\<close>

theorem marker_plan_exact_witness:
  "map onClick (cityMarkers 9 noSelection [exGB, exCA])
     = [(exGB, exLondonGB), (exGB, exLeeds), (exCA, exLondonCA)]
   \<and> map onClick (placeMarkers 9 noSelection [exGB, exCA]) = []
   \<and> map onClick (cityMarkers 3 noSelection [exGB, exCA]) = []
   \<and> map onClick (placeMarkers 12 noSelection [exGB, exCA])
     = [(exGB, exLondonGB, exWestminsterGB), (exCA, exLondonCA, exWestminsterCA)]
   \<and> cityMarker 9 noSelection exGB exLeeds \<in> set (cityMarkers 9 noSelection [exGB, exCA])
   \<and> permanent (tooltip (cityMarker 9 noSelection exGB exLeeds)) = False
   \<and> content (tooltip (cityMarker 9 noSelection exGB exLeeds)) = ''r/Leeds''
   \<and> cityMarker 9 noSelection exCA exLondonCA \<in> set (cityMarkers 9 noSelection [exGB, exCA])
   \<and> permanent (tooltip (cityMarker 9 noSelection exCA exLondonCA)) = True
   \<and> content (tooltip (cityMarker 9 noSelection exCA exLondonCA)) = ''London''
   \<and> placeMarker 12 noSelection exGB exLondonGB exWestminsterGB
        \<in> set (placeMarkers 12 noSelection [exGB, exCA])
   \<and> permanent (tooltip (placeMarker 12 noSelection exGB exLondonGB exWestminsterGB)) = True
   \<and> content (tooltip (placeMarker 12 noSelection exGB exLondonGB exWestminsterGB))
        = ''Westminster''"
proof -
  have c1: "cityMarker 9 noSelection exGB exLeeds \<in> set (cityMarkers 9 noSelection [exGB, exCA])"
    by (simp add: cityMarkers_def exGB_def)
  have c2: "cityMarker 9 noSelection exCA exLondonCA \<in> set (cityMarkers 9 noSelection [exGB, exCA])"
    by (simp add: cityMarkers_def exCA_def)
  have p1: "placeMarker 12 noSelection exGB exLondonGB exWestminsterGB
        \<in> set (placeMarkers 12 noSelection [exGB, exCA])"
    by (simp add: placeMarkers_def exGB_def exLondonGB_def)
  note t1 = marker_plan_exact [where z = 9 and sel = noSelection and ds = "[exGB, exCA]"
      and m = "cityMarker 9 noSelection exGB exLeeds"]
  note t2 = marker_plan_exact [where z = 9 and sel = noSelection and ds = "[exGB, exCA]"
      and m = "cityMarker 9 noSelection exCA exLondonCA"]
  note t3 = marker_plan_exact [where z = 12 and sel = noSelection and ds = "[exGB, exCA]"
      and n = "placeMarker 12 noSelection exGB exLondonGB exWestminsterGB"]
  note t4 = marker_plan_exact [where z = 3 and sel = noSelection and ds = "[exGB, exCA]"]
  have a: "allCities [exGB, exCA] = [(exGB, exLondonGB), (exGB, exLeeds), (exCA, exLondonCA)]"
    by (simp add: allCities_def exGB_def exCA_def)
  have b: "allPlaces [exGB, exCA]
      = [(exGB, exLondonGB, exWestminsterGB), (exCA, exLondonCA, exWestminsterCA)]"
    by (simp add: allPlaces_def exGB_def exCA_def exLondonGB_def exLondonCA_def exLeeds_def)
  show ?thesis
    using t1 t2 t3 t4 c1 c2 p1
    by (simp add: a b onClick_cityMarker onClick_placeMarker T_city_def T_place_def
        exLeeds_def exLondonCA_def exWestminsterGB_def)
qed

section \<open>Properties of the selection state machine\<close>

subsection \<open>Back and close\<close>

lemma resetSelectedLayer_simps:
  "selected (resetSelectedLayer s) = selected s"
  "zoom (resetSelectedLayer s) = zoom s"
  "selectedLayerRef (resetSelectedLayer s) = None"
  "pathStyle (resetSelectedLayer s) q =
     (if selectedLayerRef s = Some q then (pathStyle s q)\<lparr>fillOpacity := 0.08, weight := 1\<rparr>
      else pathStyle s q)"
  by (simp_all add: resetSelectedLayer_def setStyle_def split: option.split)

lemma handleBack_place:
  "sel_place (selected s) \<noteq> None \<Longrightarrow>
   handleBack s = s\<lparr>selected := (selected s)\<lparr>sel_place := None\<rparr>\<rparr>"
  by (simp add: handleBack_def)

lemma handleBack_city:
  "sel_place (selected s) = None \<Longrightarrow> sel_city (selected s) \<noteq> None \<Longrightarrow>
   handleBack s = s\<lparr>selected := (selected s)\<lparr>sel_city := None, sel_place := None\<rparr>\<rparr>"
  by (simp add: handleBack_def)

lemma handleBack_country:
  "sel_place (selected s) = None \<Longrightarrow> sel_city (selected s) = None \<Longrightarrow>
   handleBack s = (resetSelectedLayer s)\<lparr>selected := noSelection\<rparr>"
  by (simp add: handleBack_def)

text \<open>
  Claim C6. \<open>back()\<close> undoes exactly one level. With a place selected it clears the place
  and keeps the city, the country, the stored path and every style. With a city and no place
  it clears the city and keeps the country, the stored path and every style. With neither
  it clears the country, gives the stored path its default style (the other paths keep
  theirs) and clears the stored path.
\<close>

theorem handleBack_one_level:
  "(sel_place (selected s) \<noteq> None \<longrightarrow>
      selected (handleBack s)
        = \<lparr>sel_country = sel_country (selected s), sel_city = sel_city (selected s),
           sel_place = None\<rparr>
      \<and> selectedLayerRef (handleBack s) = selectedLayerRef s
      \<and> pathStyle (handleBack s) = pathStyle s)
   \<and> (sel_place (selected s) = None \<and> sel_city (selected s) \<noteq> None \<longrightarrow>
      selected (handleBack s)
        = \<lparr>sel_country = sel_country (selected s), sel_city = None, sel_place = None\<rparr>
      \<and> selectedLayerRef (handleBack s) = selectedLayerRef s
      \<and> pathStyle (handleBack s) = pathStyle s)
   \<and> (sel_place (selected s) = None \<and> sel_city (selected s) = None \<longrightarrow>
      selected (handleBack s) = noSelection
      \<and> selectedLayerRef (handleBack s) = None
      \<and> (selectedLayerRef s = Some p \<longrightarrow> isDefaultStyle (pathStyle (handleBack s) p))
      \<and> (selectedLayerRef s \<noteq> Some q \<longrightarrow> pathStyle (handleBack s) q = pathStyle s q))"
proof (intro conjI impI)
  assume a: "sel_place (selected s) \<noteq> None"
  show "selected (handleBack s)
        = \<lparr>sel_country = sel_country (selected s), sel_city = sel_city (selected s),
           sel_place = None\<rparr>"
    by (simp add: handleBack_place [OF a])
  show "selectedLayerRef (handleBack s) = selectedLayerRef s"
    by (simp add: handleBack_place [OF a])
  show "pathStyle (handleBack s) = pathStyle s"
    by (simp add: handleBack_place [OF a])
next
  assume "sel_place (selected s) = None \<and> sel_city (selected s) \<noteq> None"
  then have a: "sel_place (selected s) = None" and b: "sel_city (selected s) \<noteq> None"
    by simp_all
  show "selected (handleBack s)
        = \<lparr>sel_country = sel_country (selected s), sel_city = None, sel_place = None\<rparr>"
    by (simp add: handleBack_city [OF a b])
  show "selectedLayerRef (handleBack s) = selectedLayerRef s"
    by (simp add: handleBack_city [OF a b])
  show "pathStyle (handleBack s) = pathStyle s"
    by (simp add: handleBack_city [OF a b])
next
  assume "sel_place (selected s) = None \<and> sel_city (selected s) = None"
  then have a: "sel_place (selected s) = None" and b: "sel_city (selected s) = None"
    by simp_all
  note hb = handleBack_country [OF a b]
  show "selected (handleBack s) = noSelection"
    by (simp add: hb)
  show "selectedLayerRef (handleBack s) = None"
    by (simp add: hb resetSelectedLayer_simps)
  show "isDefaultStyle (pathStyle (handleBack s) p)" if "selectedLayerRef s = Some p"
    using that by (simp add: hb resetSelectedLayer_simps isDefaultStyle_def)
  show "pathStyle (handleBack s) q = pathStyle s q" if "selectedLayerRef s \<noteq> Some q"
    using that by (simp add: hb resetSelectedLayer_simps)
qed

text \<open>
  Claim C9. For an id that the country table does not hold, \<open>selectCountry\<close> returns at
  once: no statement of its body runs, and the whole state (selection, stored path, the
  style of every path, zoom) is the one before the call. The function has no failing branch.
\<close>

theorem selectCountry_unknown_id_noop:
  "countryMap env cid = None \<Longrightarrow>
   selectCountry env cid layer s = s \<and> selectCountry_steps env cid layer s = []"
  by (simp add: selectCountry_def selectCountry_steps_def)

text \<open>
  Claim C10. A state with nothing selected and no stored path is a fixed point of \<open>back()\<close>
  and of \<open>close()\<close>: the whole state, styles included, is unchanged. From any state
  \<open>close()\<close> leads to such a state, so \<open>close()\<close> is idempotent.
\<close>

theorem none_is_fixpoint:
  "(selected s = noSelection \<and> selectedLayerRef s = None \<longrightarrow>
      handleBack s = s \<and> handleClose s = s)
   \<and> handleClose (handleClose s) = handleClose s
   \<and> selected (handleClose s) = noSelection
   \<and> selectedLayerRef (handleClose s) = None"
proof (intro conjI impI)
  assume a: "selected s = noSelection \<and> selectedLayerRef s = None"
  then have r: "resetSelectedLayer s = s"
    by (simp add: resetSelectedLayer_def)
  from a have n: "s\<lparr>selected := noSelection\<rparr> = s"
    by simp
  show "handleBack s = s"
    using a by (simp add: handleBack_def r n noSelection_def)
  show "handleClose s = s"
    by (simp add: handleClose_def r n)
next
  show "handleClose (handleClose s) = handleClose s"
    by (simp add: handleClose_def resetSelectedLayer_def split: option.split)
  show "selected (handleClose s) = noSelection"
    by (simp add: handleClose_def)
  show "selectedLayerRef (handleClose s) = None"
    by (simp add: handleClose_def resetSelectedLayer_simps)
qed

text \<open>
  Claim C5, as amended. From a state in which a place and its city are selected, two calls
  of \<open>back()\<close> clear the place and the city and keep the country, the stored path and every
  style; the third call yields the empty selection, clears the stored path and gives it its
  default style. The country path is unhighlighted on the third call only.
\<close>

theorem back_three_times_from_place:
  assumes "sel_place (selected s) \<noteq> None" and "sel_city (selected s) \<noteq> None"
  shows "selected (handleBack (handleBack s))
           = \<lparr>sel_country = sel_country (selected s), sel_city = None, sel_place = None\<rparr>
     \<and> selectedLayerRef (handleBack s) = selectedLayerRef s
     \<and> pathStyle (handleBack s) = pathStyle s
     \<and> selectedLayerRef (handleBack (handleBack s)) = selectedLayerRef s
     \<and> pathStyle (handleBack (handleBack s)) = pathStyle s
     \<and> selected (handleBack (handleBack (handleBack s))) = noSelection
     \<and> selectedLayerRef (handleBack (handleBack (handleBack s))) = None
     \<and> (selectedLayerRef s = Some p \<longrightarrow>
          isDefaultStyle (pathStyle (handleBack (handleBack (handleBack s))) p))"
proof -
  let ?s1 = "handleBack s"
  let ?s2 = "handleBack ?s1"
  let ?s3 = "handleBack ?s2"
  have b1: "?s1 = s\<lparr>selected := (selected s)\<lparr>sel_place := None\<rparr>\<rparr>"
    using assms(1) by (rule handleBack_place)
  have f1: "sel_place (selected ?s1) = None" "sel_city (selected ?s1) \<noteq> None"
    "sel_country (selected ?s1) = sel_country (selected s)"
    "selectedLayerRef ?s1 = selectedLayerRef s" "pathStyle ?s1 = pathStyle s"
    using assms(2) by (simp_all add: b1)
  have b2: "?s2 = ?s1\<lparr>selected := (selected ?s1)\<lparr>sel_city := None, sel_place := None\<rparr>\<rparr>"
    using f1(1,2) by (rule handleBack_city)
  have f2: "sel_place (selected ?s2) = None" "sel_city (selected ?s2) = None"
    "sel_country (selected ?s2) = sel_country (selected s)"
    "selectedLayerRef ?s2 = selectedLayerRef s" "pathStyle ?s2 = pathStyle s"
    by (simp_all add: b2 f1)
  have b3: "?s3 = (resetSelectedLayer ?s2)\<lparr>selected := noSelection\<rparr>"
    using f2(1,2) by (rule handleBack_country)
  have f3: "selected ?s3 = noSelection" "selectedLayerRef ?s3 = None"
    "selectedLayerRef s = Some p \<longrightarrow> isDefaultStyle (pathStyle ?s3 p)"
    by (simp_all add: b3 resetSelectedLayer_simps f2 isDefaultStyle_def)
  have "selected ?s2 = \<lparr>sel_country = sel_country (selected s), sel_city = None, sel_place = None\<rparr>"
    using f2(1,2,3) by (cases "selected ?s2") simp
  with f1 f2 f3 show ?thesis by simp
qed

subsection \<open>The example environment\<close>

lemma ex_fields:
  "country_id exGB = ''826''" "country_id exCA = ''124''"
  "cities exGB = [exLondonGB, exLeeds]" "cities exCA = [exLondonCA]"
  "places exLondonGB = Some [exWestminsterGB]" "places exLeeds = None"
  "places exLondonCA = Some [exWestminsterCA]"
  "city_name exLondonGB = ''London''" "city_name exLondonCA = ''London''"
  "city_name exLeeds = ''Leeds''"
  "place_name exWestminsterGB = ''Westminster''" "place_name exWestminsterCA = ''Westminster''"
  by (simp_all add: exGB_def exCA_def exLondonGB_def exLeeds_def exLondonCA_def
      exWestminsterGB_def exWestminsterCA_def)

lemma ex_env:
  "countrySubreddits exEnv = [exGB, exCA]"
  "countryMap exEnv ''826'' = Some exGB" "countryMap exEnv ''124'' = Some exCA"
  "countryMap exEnv ''010'' = None"
  "boundCountry exEnv 10 = Some exGB" "boundCountry exEnv 20 = Some exCA"
  "boundCountry exEnv 30 = None"
  by (simp_all add: exEnv_def boundCountry_def)

lemma ex_country_state:
  "selected (run exEnv [PathClick 10])
     = \<lparr>sel_country = Some exGB, sel_city = None, sel_place = None\<rparr>"
  "selectedLayerRef (run exEnv [PathClick 10]) = Some 10"
  "isHighlightStyle (pathStyle (run exEnv [PathClick 10])  10)"
  "isDefaultStyle (pathStyle (run exEnv [PathClick 10]) 20)"
  by (simp_all add: run_def ex_env ex_fields selectCountry_def selectCountry_steps_def
      setStyle_def initialState_def initialStyle_def isHighlightStyle_def isDefaultStyle_def)

lemma ex_place_state:
  "selected (run exEnv [PathClick 10, ZoomEnd 12, PlaceMarkerClick 0])
     = \<lparr>sel_country = Some exGB, sel_city = Some exLondonGB, sel_place = Some exWestminsterGB\<rparr>"
  "selectedLayerRef (run exEnv [PathClick 10, ZoomEnd 12, PlaceMarkerClick 0]) = Some 10"
  "isHighlightStyle (pathStyle (run exEnv [PathClick 10, ZoomEnd 12, PlaceMarkerClick 0])  10)"
  by (simp_all add: run_def ex_env ex_fields selectCountry_def selectCountry_steps_def
      setStyle_def initialState_def initialStyle_def isHighlightStyle_def isDefaultStyle_def
      placeMarkers_def onClick_placeMarker selectPlace_def)

subsection \<open>The invariant of the style synchronisation\<close>

lemma run_snoc: "run env (es @ [e]) = step env (run env es) e"
  by (simp add: run_def)

lemma run_Nil: "run env [] = initialState env"
  by (simp add: run_def)

lemma highlightInv_initial: "highlightInv env (initialState env)"
  by (simp add: highlightInv_def initialState_def initialStyle_def isHighlightStyle_def
      noSelection_def split: option.split)

lemma selectCountry_found:
  "countryMap env cid = Some c \<Longrightarrow>
   selectCountry env cid layer s =
     (setStyle layer 0.2 2
        ((case selectedLayerRef s of
            None \<Rightarrow> s
          | Some old \<Rightarrow> if old \<noteq> layer then setStyle old 0.08 1 s else s)
         \<lparr>selectedLayerRef := Some layer\<rparr>))
     \<lparr>selected := \<lparr>sel_country = Some c, sel_city = None, sel_place = None\<rparr>\<rparr>"
  by (simp add: selectCountry_def selectCountry_steps_def Let_def)

lemma selectCountry_fields:
  assumes "countryMap env cid = Some c"
  shows "selected (selectCountry env cid layer s)
           = \<lparr>sel_country = Some c, sel_city = None, sel_place = None\<rparr>"
    and "selectedLayerRef (selectCountry env cid layer s) = Some layer"
    and "zoom (selectCountry env cid layer s) = zoom s"
    and "pathStyle (selectCountry env cid layer s) q =
           (if q = layer then (pathStyle s q)\<lparr>fillOpacity := 0.2, weight := 2\<rparr>
            else if selectedLayerRef s = Some q then (pathStyle s q)\<lparr>fillOpacity := 0.08, weight := 1\<rparr>
            else pathStyle s q)"
  by (auto simp: selectCountry_found [OF assms] setStyle_def split: option.split)

lemma highlightInvI:
  assumes "\<And>p. isHighlightStyle (pathStyle s p) \<Longrightarrow> selectedLayerRef s = Some p"
    and "\<And>p. selectedLayerRef s = Some p \<Longrightarrow> isHighlightStyle (pathStyle s p)"
    and "\<And>p. selectedLayerRef s = Some p \<Longrightarrow> sel_country (selected s) \<noteq> None"
    and "\<And>p. selectedLayerRef s = Some p \<Longrightarrow> boundCountry env p = sel_country (selected s)"
    and "selectedLayerRef s = None \<Longrightarrow> sel_country (selected s) = None"
  shows "highlightInv env s"
  unfolding highlightInv_def using assms by blast

lemma highlightInv_only_ref:
  "highlightInv env s \<Longrightarrow> isHighlightStyle (pathStyle s p) \<Longrightarrow> selectedLayerRef s = Some p"
  unfolding highlightInv_def by blast

lemma highlightInv_ref:
  "highlightInv env s \<Longrightarrow> selectedLayerRef s = Some p \<Longrightarrow>
   isHighlightStyle (pathStyle s p) \<and> sel_country (selected s) \<noteq> None
   \<and> boundCountry env p = sel_country (selected s)"
  unfolding highlightInv_def by blast

lemma highlightInv_no_ref:
  "highlightInv env s \<Longrightarrow> selectedLayerRef s = None \<Longrightarrow> sel_country (selected s) = None"
  unfolding highlightInv_def by blast

text \<open>
  A step that keeps the stored path and the selected country, and changes the style only
  of other paths and never to the highlight style, keeps the invariant.
\<close>

lemma highlightInv_kept:
  assumes inv: "highlightInv env s"
    and ref: "selectedLayerRef t = selectedLayerRef s"
    and cn: "sel_country (selected t) = sel_country (selected s)"
    and sty: "\<And>q. pathStyle t q = pathStyle s q
                \<or> (selectedLayerRef s \<noteq> Some q \<and> \<not> isHighlightStyle (pathStyle t q))"
  shows "highlightInv env t"
proof (rule highlightInvI)
  fix p
  assume "isHighlightStyle (pathStyle t p)"
  with sty [of p] have "isHighlightStyle (pathStyle s p)" by auto
  with inv show "selectedLayerRef t = Some p"
    unfolding ref by (rule highlightInv_only_ref)
next
  fix p
  assume "selectedLayerRef t = Some p"
  then have r: "selectedLayerRef s = Some p" by (simp add: ref)
  with sty [of p] have e: "pathStyle t p = pathStyle s p" by auto
  from highlightInv_ref [OF inv r]
  show "isHighlightStyle (pathStyle t p)" "sel_country (selected t) \<noteq> None"
    "boundCountry env p = sel_country (selected t)"
    by (simp_all add: e cn)
next
  assume "selectedLayerRef t = None"
  then have "selectedLayerRef s = None" by (simp add: ref)
  with inv show "sel_country (selected t) = None"
    unfolding cn by (rule highlightInv_no_ref)
qed

text \<open>Clearing the stored path, restoring its style and clearing the selection.\<close>

lemma highlightInv_reset:
  assumes inv: "highlightInv env s"
  shows "highlightInv env ((resetSelectedLayer s)\<lparr>selected := noSelection\<rparr>)"
proof (rule highlightInvI)
  fix p
  assume h: "isHighlightStyle (pathStyle ((resetSelectedLayer s)\<lparr>selected := noSelection\<rparr>) p)"
  have "selectedLayerRef s \<noteq> Some p"
    using h by (auto simp: resetSelectedLayer_simps isHighlightStyle_def)
  with h have "isHighlightStyle (pathStyle s p)"
    by (simp add: resetSelectedLayer_simps)
  with inv have "selectedLayerRef s = Some p" by (rule highlightInv_only_ref)
  with \<open>selectedLayerRef s \<noteq> Some p\<close>
  show "selectedLayerRef ((resetSelectedLayer s)\<lparr>selected := noSelection\<rparr>) = Some p"
    by simp
qed (simp_all add: resetSelectedLayer_simps noSelection_def)

lemma highlightInv_PathClick:
  assumes "keyedById env" and "highlightInv env s"
  shows "highlightInv env (step env s (PathClick p))"
proof (cases "boundCountry env p")
  case None
  with assms(2) show ?thesis by simp
next
  case (Some c)
  then have "countryMap env (country_id c) = Some c"
    using assms(1) unfolding keyedById_def boundCountry_def
    by (cases "featureOf env p") auto
  note f = selectCountry_fields [OF this]
  let ?t = "selectCountry env (country_id c) p s"
  have st: "step env s (PathClick p) = ?t"
    using Some by simp
  show ?thesis
    unfolding st
  proof (rule highlightInvI)
    fix q
    assume h: "isHighlightStyle (pathStyle ?t q)"
    show "selectedLayerRef ?t = Some q"
    proof (cases "q = p")
      case True
      then show ?thesis by (simp add: f)
    next
      case False
      have n: "selectedLayerRef s \<noteq> Some q"
        using h False by (auto simp: f isHighlightStyle_def)
      with h False have "isHighlightStyle (pathStyle s q)" by (simp add: f)
      with assms(2) have "selectedLayerRef s = Some q" by (rule highlightInv_only_ref)
      with n show ?thesis by simp
    qed
  next
    fix q
    assume "selectedLayerRef ?t = Some q"
    then have q: "q = p" by (simp add: f)
    show "isHighlightStyle (pathStyle ?t q)" "sel_country (selected ?t) \<noteq> None"
      "boundCountry env q = sel_country (selected ?t)"
      using Some by (simp_all add: q f isHighlightStyle_def)
  next
    assume "selectedLayerRef ?t = None"
    then show "sel_country (selected ?t) = None" by (simp add: f)
  qed
qed

lemma highlightInv_hover:
  assumes "highlightInv env s"
  shows "highlightInv env (step env s (PathMouseover p))"
    and "highlightInv env (step env s (PathMouseout p))"
proof -
  have "highlightInv env (pathMouseover p s)"
    by (rule highlightInv_kept [OF assms])
      (auto simp: pathMouseover_def setStyle_def isHighlightStyle_def)
  then show "highlightInv env (step env s (PathMouseover p))"
    using assms by (simp split: option.split)
  have "highlightInv env (pathMouseout p s)"
    by (rule highlightInv_kept [OF assms])
      (auto simp: pathMouseout_def setStyle_def isHighlightStyle_def)
  then show "highlightInv env (step env s (PathMouseout p))"
    using assms by (simp split: option.split)
qed

lemma highlightInv_panel:
  assumes "highlightInv env s"
  shows "highlightInv env (step env s (PanelCityClick k))"
    and "highlightInv env (step env s (PanelPlaceClick k))"
proof -
  show "highlightInv env (step env s (PanelCityClick k))"
    by (rule highlightInv_kept [OF assms])
      (auto simp: Let_def onCityClick_def selectCity_def split: option.split)
  show "highlightInv env (step env s (PanelPlaceClick k))"
    by (rule highlightInv_kept [OF assms])
      (auto simp: Let_def onPlaceClick_def selectPlace_def split: option.split)
qed

lemma highlightInv_back_close:
  assumes "highlightInv env s"
  shows "highlightInv env (step env s Back)"
    and "highlightInv env (step env s Close)"
proof -
  show "highlightInv env (step env s Close)"
    using highlightInv_reset [OF assms] by (simp add: handleClose_def)
  show "highlightInv env (step env s Back)"
  proof (cases "sel_place (selected s) = None \<and> sel_city (selected s) = None")
    case True
    then show ?thesis
      using highlightInv_reset [OF assms] by (simp add: handleBack_def)
  next
    case False
    show ?thesis
      by (rule highlightInv_kept [OF assms]) (use False in \<open>auto simp: handleBack_def\<close>)
  qed
qed

lemma highlightInv_zoom:
  "highlightInv env s \<Longrightarrow> highlightInv env (step env s (ZoomEnd z))"
  by (erule highlightInv_kept) simp_all

lemma highlightInv_step:
  assumes "keyedById env" and "highlightInv env s" and "\<not> isMarkerClick e"
  shows "highlightInv env (step env s e)"
proof (cases e)
  case (PathClick p)
  then show ?thesis using assms(1,2) by (simp only: highlightInv_PathClick)
next
  case (PathMouseover p)
  then show ?thesis using assms(2) by (simp only: highlightInv_hover)
next
  case (PathMouseout p)
  then show ?thesis using assms(2) by (simp only: highlightInv_hover)
next
  case (CityMarkerClick k)
  with assms(3) show ?thesis by simp
next
  case (PlaceMarkerClick k)
  with assms(3) show ?thesis by simp
next
  case (PanelCityClick k)
  then show ?thesis using assms(2) by (simp only: highlightInv_panel)
next
  case (PanelPlaceClick k)
  then show ?thesis using assms(2) by (simp only: highlightInv_panel)
next
  case Back
  then show ?thesis using assms(2) by (simp only: highlightInv_back_close)
next
  case Close
  then show ?thesis using assms(2) by (simp only: highlightInv_back_close)
next
  case (ZoomEnd z)
  then show ?thesis using assms(2) by (simp only: highlightInv_zoom)
qed

lemma highlightInv_run:
  assumes "keyedById env" and "\<forall>e \<in> set es. \<not> isMarkerClick e"
  shows "highlightInv env (run env es)"
  using assms(2)
proof (induction es rule: rev_induct)
  case Nil
  show ?case by (simp add: run_Nil highlightInv_initial)
next
  case (snoc e es)
  then have "highlightInv env (run env es)" and "\<not> isMarkerClick e" by simp_all
  then show ?case
    unfolding run_snoc by (rule highlightInv_step [OF assms(1)])
qed

lemma selectCountry_steps_style:
  assumes "t \<in> set (selectCountry_steps env cid layer s)"
  shows "(\<forall>q. pathStyle t q =
            (if selectedLayerRef s = Some q \<and> q \<noteq> layer
             then (pathStyle s q)\<lparr>fillOpacity := 0.08, weight := 1\<rparr>
             else pathStyle s q))
       \<or> (\<forall>q. pathStyle t q =
            (if q = layer then (pathStyle s q)\<lparr>fillOpacity := 0.2, weight := 2\<rparr>
             else if selectedLayerRef s = Some q
               then (pathStyle s q)\<lparr>fillOpacity := 0.08, weight := 1\<rparr>
             else pathStyle s q))"
proof (cases "countryMap env cid")
  case None
  with assms show ?thesis by (simp add: selectCountry_steps_def)
next
  case (Some c)
  show ?thesis
  proof (cases "selectedLayerRef s")
    case None
    with assms Some show ?thesis
      by (auto simp: selectCountry_steps_def Let_def setStyle_def)
  next
    case (Some old)
    with assms \<open>countryMap env cid = Some c\<close> show ?thesis
      by (auto simp: selectCountry_steps_def Let_def setStyle_def)
  qed
qed

lemma selectCountry_steps_highlight:
  assumes inv: "highlightInv env s"
    and t: "t \<in> set (selectCountry_steps env cid layer s)"
    and h: "isHighlightStyle (pathStyle t q)"
  shows "q = layer"
proof (rule ccontr)
  assume n: "q \<noteq> layer"
  from selectCountry_steps_style [OF t] n
  have e: "pathStyle t q =
      (if selectedLayerRef s = Some q then (pathStyle s q)\<lparr>fillOpacity := 0.08, weight := 1\<rparr>
       else pathStyle s q)"
    by auto
  have r: "selectedLayerRef s \<noteq> Some q"
    using h e by (auto simp: isHighlightStyle_def)
  with h e have "isHighlightStyle (pathStyle s q)" by simp
  with inv have "selectedLayerRef s = Some q" by (rule highlightInv_only_ref)
  with r show False by simp
qed

lemma selectCountry_steps_old_default:
  assumes t: "t \<in> set (selectCountry_steps env cid layer s)"
    and r: "selectedLayerRef s = Some p" and n: "p \<noteq> layer"
  shows "isDefaultStyle (pathStyle t p)"
  using selectCountry_steps_style [OF t] r n
  by (auto simp: isDefaultStyle_def)

lemma hover_keeps_stored_path:
  assumes "selectedLayerRef s = Some p"
  shows "pathStyle (pathMouseover q s) p = pathStyle s p"
    and "pathStyle (pathMouseout q s) p = pathStyle s p"
  using assms by (auto simp: pathMouseover_def pathMouseout_def setStyle_def)

lemma selectCountry_steps_found:
  assumes "countryMap env cid = Some c"
  shows "length (selectCountry_steps env cid layer s) = 4"
    and "last (selectCountry_steps env cid layer s) = selectCountry env cid layer s"
    and "pathStyle (selectCountry_steps env cid layer s ! 0) q =
           (if selectedLayerRef s = Some q \<and> q \<noteq> layer
            then (pathStyle s q)\<lparr>fillOpacity := 0.08, weight := 1\<rparr>
            else pathStyle s q)"
    and "pathStyle (selectCountry_steps env cid layer s ! Suc 0)
           = pathStyle (selectCountry_steps env cid layer s ! 0)"
    and "selectedLayerRef (selectCountry_steps env cid layer s ! 0) = selectedLayerRef s"
    and "selectedLayerRef (selectCountry_steps env cid layer s ! Suc 0) = Some layer"
    and "selectedLayerRef (selectCountry_steps env cid layer s ! 2) = Some layer"
    and "isHighlightStyle (pathStyle (selectCountry_steps env cid layer s ! 2) layer)"
    and "selected (selectCountry_steps env cid layer s ! 2) = selected s"
    and "selected (selectCountry_steps env cid layer s ! 3)
           = \<lparr>sel_country = Some c, sel_city = None, sel_place = None\<rparr>"
  using assms
  by (auto simp: selectCountry_steps_def selectCountry_def Let_def setStyle_def
      isHighlightStyle_def split: option.split)

text \<open>
  Claim C4. Let the country table be keyed by identifier, and take any sequence of events
  other than clicks on city or place markers (path clicks, which run \<open>selectCountry\<close>, path
  hover enter and exit, back, close, and also panel clicks and zoom changes). In the state
  reached, at most one path carries the highlight style; a path that carries it is the
  stored path, a country is selected and it is the country the path is bound to; the stored
  path carries the highlight style; without a stored path no country is selected. In every
  intermediate state of a further \<open>selectCountry\<close> call at most one path carries the
  highlight style and the previously stored path, when it is another one, has its default
  style already. The hover handlers leave the style of the stored path as it is.
  A click on a path bound to a country stores that path, gives it the highlight style,
  selects its country alone, leaves no other path highlighted and the previously stored
  path in its default style. A \<open>selectCountry\<close> call that finds its country runs four
  statements: after the first the previously stored path, when it is another one, has its
  default style and the new path is not highlighted yet; after the second the new path is
  stored; after the third it carries the highlight style; after the fourth the country is
  selected, and that state is the result of the call.
\<close>

theorem one_highlighted_drawable:
  assumes "keyedById env" and "\<forall>e \<in> set es. \<not> isMarkerClick e"
  shows
   "(isHighlightStyle (pathStyle (run env es) p) \<and> isHighlightStyle (pathStyle (run env es) q)
       \<longrightarrow> p = q)
    \<and> (isHighlightStyle (pathStyle (run env es) p) \<longrightarrow>
         selectedLayerRef (run env es) = Some p
         \<and> sel_country (selected (run env es)) \<noteq> None
         \<and> boundCountry env p = sel_country (selected (run env es)))
    \<and> (selectedLayerRef (run env es) = Some p \<longrightarrow> isHighlightStyle (pathStyle (run env es) p))
    \<and> (selectedLayerRef (run env es) = None \<longrightarrow> sel_country (selected (run env es)) = None)
    \<and> (t \<in> set (selectCountry_steps env cid layer (run env es))
         \<and> isHighlightStyle (pathStyle t p) \<and> isHighlightStyle (pathStyle t q) \<longrightarrow> p = q)
    \<and> (t \<in> set (selectCountry_steps env cid layer (run env es))
         \<and> selectedLayerRef (run env es) = Some p \<and> p \<noteq> layer \<longrightarrow>
         isDefaultStyle (pathStyle t p))
    \<and> (selectedLayerRef (run env es) = Some p \<longrightarrow>
         pathStyle (pathMouseover q (run env es)) p = pathStyle (run env es) p
         \<and> pathStyle (pathMouseout q (run env es)) p = pathStyle (run env es) p)
    \<and> (boundCountry env p = Some c \<longrightarrow>
         selectedLayerRef (step env (run env es) (PathClick p)) = Some p
         \<and> isHighlightStyle (pathStyle (step env (run env es) (PathClick p)) p)
         \<and> selected (step env (run env es) (PathClick p))
             = \<lparr>sel_country = Some c, sel_city = None, sel_place = None\<rparr>
         \<and> (q \<noteq> p \<longrightarrow> \<not> isHighlightStyle (pathStyle (step env (run env es) (PathClick p)) q))
         \<and> (selectedLayerRef (run env es) = Some q \<and> q \<noteq> p \<longrightarrow>
              isDefaultStyle (pathStyle (step env (run env es) (PathClick p)) q)))
    \<and> (countryMap env cid = Some c \<longrightarrow>
         length (selectCountry_steps env cid layer (run env es)) = 4
         \<and> last (selectCountry_steps env cid layer (run env es))
             = selectCountry env cid layer (run env es)
         \<and> (selectedLayerRef (run env es) = Some p \<and> p \<noteq> layer \<longrightarrow>
              isDefaultStyle (pathStyle (selectCountry_steps env cid layer (run env es) ! 0) p)
              \<and> \<not> isHighlightStyle
                    (pathStyle (selectCountry_steps env cid layer (run env es) ! 0) layer)
              \<and> \<not> isHighlightStyle
                    (pathStyle (selectCountry_steps env cid layer (run env es) ! 1) layer))
         \<and> selectedLayerRef (selectCountry_steps env cid layer (run env es) ! 1) = Some layer
         \<and> isHighlightStyle (pathStyle (selectCountry_steps env cid layer (run env es) ! 2) layer)
         \<and> selected (selectCountry_steps env cid layer (run env es) ! 2) = selected (run env es)
         \<and> selected (selectCountry_steps env cid layer (run env es) ! 3)
             = \<lparr>sel_country = Some c, sel_city = None, sel_place = None\<rparr>)"
proof -
  let ?s = "run env es"
  have inv: "highlightInv env ?s"
    using assms by (rule highlightInv_run)
  have one: "p = q" if "isHighlightStyle (pathStyle ?s p)" "isHighlightStyle (pathStyle ?s q)"
    using highlightInv_only_ref [OF inv that(1)] highlightInv_only_ref [OF inv that(2)] by simp
  have sel: "selectedLayerRef ?s = Some p \<and> sel_country (selected ?s) \<noteq> None
         \<and> boundCountry env p = sel_country (selected ?s)"
    if "isHighlightStyle (pathStyle ?s p)"
    using highlightInv_only_ref [OF inv that] highlightInv_ref [OF inv] by blast
  have stored: "isHighlightStyle (pathStyle ?s p)" if "selectedLayerRef ?s = Some p"
    using highlightInv_ref [OF inv that] by blast
  have none: "sel_country (selected ?s) = None" if "selectedLayerRef ?s = None"
    using inv that by (rule highlightInv_no_ref)
  have mid: "p = q"
    if "t \<in> set (selectCountry_steps env cid layer ?s)"
      "isHighlightStyle (pathStyle t p)" "isHighlightStyle (pathStyle t q)"
    using selectCountry_steps_highlight [OF inv that(1) that(2)]
      selectCountry_steps_highlight [OF inv that(1) that(3)] by simp
  have old: "isDefaultStyle (pathStyle t p)"
    if "t \<in> set (selectCountry_steps env cid layer ?s)" "selectedLayerRef ?s = Some p" "p \<noteq> layer"
    using that by (rule selectCountry_steps_old_default)
  have hov: "pathStyle (pathMouseover q ?s) p = pathStyle ?s p
         \<and> pathStyle (pathMouseout q ?s) p = pathStyle ?s p"
    if "selectedLayerRef ?s = Some p"
    using hover_keeps_stored_path [OF that] by simp
  have click: "selectedLayerRef (step env ?s (PathClick p)) = Some p
         \<and> isHighlightStyle (pathStyle (step env ?s (PathClick p)) p)
         \<and> selected (step env ?s (PathClick p))
             = \<lparr>sel_country = Some c, sel_city = None, sel_place = None\<rparr>
         \<and> (q \<noteq> p \<longrightarrow> \<not> isHighlightStyle (pathStyle (step env ?s (PathClick p)) q))
         \<and> (selectedLayerRef ?s = Some q \<and> q \<noteq> p \<longrightarrow>
              isDefaultStyle (pathStyle (step env ?s (PathClick p)) q))"
    if b: "boundCountry env p = Some c"
  proof -
    from b have "countryMap env (country_id c) = Some c"
      using assms(1) unfolding keyedById_def boundCountry_def
      by (cases "featureOf env p") auto
    note f = selectCountry_fields [OF this]
    have st: "step env ?s (PathClick p) = selectCountry env (country_id c) p ?s"
      using b by simp
    have inv': "highlightInv env (step env ?s (PathClick p))"
      using assms(1) inv by (rule highlightInv_PathClick)
    have r: "selectedLayerRef (step env ?s (PathClick p)) = Some p"
      unfolding st by (simp add: f)
    have "\<not> isHighlightStyle (pathStyle (step env ?s (PathClick p)) q)" if "q \<noteq> p"
    proof
      assume "isHighlightStyle (pathStyle (step env ?s (PathClick p)) q)"
      with inv' have "selectedLayerRef (step env ?s (PathClick p)) = Some q"
        by (rule highlightInv_only_ref)
      with r that show False by simp
    qed
    moreover have "isDefaultStyle (pathStyle (step env ?s (PathClick p)) q)"
      if "selectedLayerRef ?s = Some q \<and> q \<noteq> p"
      using that unfolding st by (simp add: f isDefaultStyle_def)
    moreover have "isHighlightStyle (pathStyle (step env ?s (PathClick p)) p)"
      unfolding st by (simp add: f isHighlightStyle_def)
    moreover have "selected (step env ?s (PathClick p))
             = \<lparr>sel_country = Some c, sel_city = None, sel_place = None\<rparr>"
      unfolding st by (simp add: f)
    ultimately show ?thesis using r by blast
  qed
  have order: "length (selectCountry_steps env cid layer ?s) = 4
         \<and> last (selectCountry_steps env cid layer ?s) = selectCountry env cid layer ?s
         \<and> (selectedLayerRef ?s = Some p \<and> p \<noteq> layer \<longrightarrow>
              isDefaultStyle (pathStyle (selectCountry_steps env cid layer ?s ! 0) p)
              \<and> \<not> isHighlightStyle (pathStyle (selectCountry_steps env cid layer ?s ! 0) layer)
              \<and> \<not> isHighlightStyle (pathStyle (selectCountry_steps env cid layer ?s ! 1) layer))
         \<and> selectedLayerRef (selectCountry_steps env cid layer ?s ! 1) = Some layer
         \<and> isHighlightStyle (pathStyle (selectCountry_steps env cid layer ?s ! 2) layer)
         \<and> selected (selectCountry_steps env cid layer ?s ! 2) = selected ?s
         \<and> selected (selectCountry_steps env cid layer ?s ! 3)
             = \<lparr>sel_country = Some c, sel_city = None, sel_place = None\<rparr>"
    if cm: "countryMap env cid = Some c"
  proof -
    note f = selectCountry_steps_found [OF cm]
    have "isDefaultStyle (pathStyle (selectCountry_steps env cid layer ?s ! 0) p)
        \<and> \<not> isHighlightStyle (pathStyle (selectCountry_steps env cid layer ?s ! 0) layer)
        \<and> \<not> isHighlightStyle (pathStyle (selectCountry_steps env cid layer ?s ! 1) layer)"
      if a: "selectedLayerRef ?s = Some p \<and> p \<noteq> layer"
    proof -
      have "\<not> isHighlightStyle (pathStyle ?s layer)"
      proof
        assume "isHighlightStyle (pathStyle ?s layer)"
        with inv have "selectedLayerRef ?s = Some layer" by (rule highlightInv_only_ref)
        with a show False by auto
      qed
      then show ?thesis
        using a by (simp add: f isDefaultStyle_def)
    qed
    then show ?thesis
      by (simp add: f)
  qed
  from one sel stored none mid old hov click order show ?thesis by blast
qed

lemma keyedById_exEnv: "keyedById exEnv"
  by (auto simp: keyedById_def exEnv_def ex_fields split: if_splits)

text \<open>
  The theorem of C4 on the example environment: select one country, hover and select the
  other, leave the first.
\<close>

theorem one_highlighted_drawable_witness:
  "selectedLayerRef (run exEnv [PathClick 10, PathMouseover 20, PathClick 20, PathMouseout 10])
     = Some 20
   \<and> isHighlightStyle
       (pathStyle (run exEnv [PathClick 10, PathMouseover 20, PathClick 20, PathMouseout 10]) 20)
   \<and> sel_country (selected (run exEnv [PathClick 10, PathMouseover 20, PathClick 20, PathMouseout 10]))
       = boundCountry exEnv 20
   \<and> hd (selectCountry_steps exEnv ''826'' 10 (run exEnv [PathClick 20]))
       \<in> set (selectCountry_steps exEnv ''826'' 10 (run exEnv [PathClick 20]))
   \<and> isDefaultStyle
       (pathStyle (hd (selectCountry_steps exEnv ''826'' 10 (run exEnv [PathClick 20]))) 20)
   \<and> pathStyle (pathMouseover 20 (run exEnv [PathClick 20])) 20
       = pathStyle (run exEnv [PathClick 20]) 20
   \<and> boundCountry exEnv 10 = Some exGB
   \<and> selectedLayerRef (step exEnv (run exEnv [PathClick 20]) (PathClick 10)) = Some 10
   \<and> isHighlightStyle (pathStyle (step exEnv (run exEnv [PathClick 20]) (PathClick 10)) 10)
   \<and> sel_country (selected (step exEnv (run exEnv [PathClick 20]) (PathClick 10))) = Some exGB
   \<and> \<not> isHighlightStyle (pathStyle (step exEnv (run exEnv [PathClick 20]) (PathClick 10)) 20)
   \<and> isDefaultStyle (pathStyle (step exEnv (run exEnv [PathClick 20]) (PathClick 10)) 20)
   \<and> countryMap exEnv ''826'' = Some exGB
   \<and> length (selectCountry_steps exEnv ''826'' 10 (run exEnv [PathClick 20])) = 4
   \<and> isDefaultStyle (pathStyle (selectCountry_steps exEnv ''826'' 10 (run exEnv [PathClick 20]) ! 0) 20)
   \<and> \<not> isHighlightStyle
         (pathStyle (selectCountry_steps exEnv ''826'' 10 (run exEnv [PathClick 20]) ! 0) 10)
   \<and> isHighlightStyle
         (pathStyle (selectCountry_steps exEnv ''826'' 10 (run exEnv [PathClick 20]) ! 2) 10)
   \<and> sel_country (selected (selectCountry_steps exEnv ''826'' 10 (run exEnv [PathClick 20]) ! 3))
       = Some exGB"
proof -
  have ops1: "\<forall>e \<in> set [PathClick 10, PathMouseover 20, PathClick 20, PathMouseout 10].
      \<not> isMarkerClick e"
    by simp
  have ops2: "\<forall>e \<in> set [PathClick 20]. \<not> isMarkerClick e"
    by simp
  note t1 = one_highlighted_drawable [OF keyedById_exEnv ops1, where p = 20 and q = 20]
  note t2 = one_highlighted_drawable [OF keyedById_exEnv ops2, where p = 20 and q = 20
      and cid = "''826''" and layer = 10 and c = exGB
      and t = "hd (selectCountry_steps exEnv ''826'' 10 (run exEnv [PathClick 20]))"]
  note t3 = one_highlighted_drawable [OF keyedById_exEnv ops2, where p = 10 and q = 20
      and c = exGB]
  have r1: "selectedLayerRef (run exEnv [PathClick 10, PathMouseover 20, PathClick 20, PathMouseout 10])
     = Some 20"
    by (simp add: run_def ex_env ex_fields selectCountry_fields pathMouseover_def pathMouseout_def
      setStyle_def initialState_def)
  have r2: "selectedLayerRef (run exEnv [PathClick 20]) = Some 20"
    by (simp add: run_def ex_env ex_fields selectCountry_fields)
  have m: "hd (selectCountry_steps exEnv ''826'' 10 (run exEnv [PathClick 20]))
       \<in> set (selectCountry_steps exEnv ''826'' 10 (run exEnv [PathClick 20]))"
    by (simp add: selectCountry_steps_def ex_env Let_def)
  show ?thesis
    using t1 t2 t3 r1 r2 m by (simp add: ex_env)
qed

subsection \<open>The selection is nested in the dataset\<close>

lemma allCities_parent:
  "(cn, ci) \<in> set (allCities ds) \<Longrightarrow> cn \<in> set ds \<and> ci \<in> set (cities cn)"
  by (auto simp: allCities_def)

lemma allPlaces_parent:
  "(cn, ci, pl) \<in> set (allPlaces ds) \<Longrightarrow>
   cn \<in> set ds \<and> ci \<in> set (cities cn) \<and> (\<exists>ps. places ci = Some ps \<and> pl \<in> set ps)"
  by (auto simp: allPlaces_def split: option.splits) metis

lemma cityMarkers_nth_parent:
  assumes "k < length (cityMarkers z sel ds)"
  shows "snd (onClick (cityMarkers z sel ds ! k)) \<in> set (cities (fst (onClick (cityMarkers z sel ds ! k))))"
proof -
  have "onClick (cityMarkers z sel ds ! k) \<in> set (map onClick (cityMarkers z sel ds))"
    using assms by simp
  then have "onClick (cityMarkers z sel ds ! k) \<in> set (allCities ds)"
    unfolding map_onClick_cityMarkers by (simp split: if_splits)
  then show ?thesis
    using allCities_parent [of "fst (onClick (cityMarkers z sel ds ! k))"
        "snd (onClick (cityMarkers z sel ds ! k))" ds]
    by simp
qed

lemma placeMarkers_nth_parent:
  assumes "k < length (placeMarkers z sel ds)"
  shows "fst (snd (onClick (placeMarkers z sel ds ! k)))
           \<in> set (cities (fst (onClick (placeMarkers z sel ds ! k))))
       \<and> (\<exists>ps. places (fst (snd (onClick (placeMarkers z sel ds ! k)))) = Some ps
              \<and> snd (snd (onClick (placeMarkers z sel ds ! k))) \<in> set ps)"
proof -
  have "onClick (placeMarkers z sel ds ! k) \<in> set (map onClick (placeMarkers z sel ds))"
    using assms by simp
  then have "onClick (placeMarkers z sel ds ! k) \<in> set (allPlaces ds)"
    unfolding map_onClick_placeMarkers by (simp split: if_splits)
  then show ?thesis
    using allPlaces_parent [of "fst (onClick (placeMarkers z sel ds ! k))"
        "fst (snd (onClick (placeMarkers z sel ds ! k)))"
        "snd (snd (onClick (placeMarkers z sel ds ! k)))" ds]
    by simp
qed

lemma nested_selectCity:
  "ci \<in> set (cities cn) \<Longrightarrow> nested (selected (selectCity cn ci s))"
  by (simp add: nested_def selectCity_def)

lemma nested_selectPlace:
  "ci \<in> set (cities cn) \<Longrightarrow> places ci = Some ps \<Longrightarrow> pl \<in> set ps \<Longrightarrow>
   nested (selected (selectPlace cn ci pl s))"
  by (simp add: nested_def selectPlace_def)

lemma nested_selectCountry:
  "nested (selected s) \<Longrightarrow> nested (selected (selectCountry env cid layer s))"
  by (cases "countryMap env cid")
    (simp_all add: selectCountry_def selectCountry_steps_def Let_def nested_def)

lemma nested_panelCity:
  assumes "k < length (panelCities (selected s))"
  shows "nested (selected (onCityClick (panelCities (selected s) ! k) s))"
proof -
  from assms obtain cn where cn: "sel_country (selected s) = Some cn"
    and l: "panelCities (selected s) = cities cn"
    by (auto simp: panelCities_def split: option.splits if_splits)
  from assms l have "panelCities (selected s) ! k \<in> set (cities cn)" by simp
  then show ?thesis
    by (simp add: onCityClick_def cn nested_selectCity)
qed

lemma nested_panelPlace:
  assumes "nested (selected s)" and "k < length (panelPlaces (selected s))"
  shows "nested (selected (onPlaceClick (panelPlaces (selected s) ! k) s))"
proof -
  from assms(2) obtain ci ps where ci: "sel_city (selected s) = Some ci"
    and np: "sel_place (selected s) = None"
    and ps: "places ci = Some ps" and l: "panelPlaces (selected s) = ps"
    by (auto simp: panelPlaces_def split: option.splits if_splits)
  from assms(1) ci np obtain cn where cn: "sel_country (selected s) = Some cn"
    and par: "ci \<in> set (cities cn)"
    by (auto simp: nested_def split: option.splits)
  from assms(2) l have "panelPlaces (selected s) ! k \<in> set ps" by simp
  then show ?thesis
    by (simp add: onPlaceClick_def cn ci nested_selectPlace [OF par ps])
qed

lemma nested_handleBack: "nested (selected s) \<Longrightarrow> nested (selected (handleBack s))"
  by (auto simp: handleBack_def nested_def resetSelectedLayer_simps noSelection_def
      split: option.splits)

lemma nested_handleClose: "nested (selected (handleClose s))"
  by (simp add: handleClose_def nested_def noSelection_def)

lemma nested_step:
  assumes "nested (selected s)"
  shows "nested (selected (step env s e))"
proof (cases e)
  case (PathClick p)
  then show ?thesis using assms
    by (simp add: nested_selectCountry split: option.split)
next
  case (PathMouseover p)
  then show ?thesis using assms
    by (simp add: pathMouseover_def setStyle_def split: option.split)
next
  case (PathMouseout p)
  then show ?thesis using assms
    by (simp add: pathMouseout_def setStyle_def split: option.split)
next
  case (CityMarkerClick k)
  then show ?thesis using assms
    by (simp add: Let_def nested_selectCity cityMarkers_nth_parent)
next
  case (PlaceMarkerClick k)
  show ?thesis
  proof (cases "k < length (placeMarkers (zoom s) (selected s) (countrySubreddits env))")
    case True
    from placeMarkers_nth_parent [OF True] show ?thesis
      using True PlaceMarkerClick by (auto simp: Let_def intro: nested_selectPlace)
  next
    case False
    with PlaceMarkerClick assms show ?thesis by (simp add: Let_def)
  qed
next
  case (PanelCityClick k)
  then show ?thesis using assms by (simp add: Let_def nested_panelCity)
next
  case (PanelPlaceClick k)
  then show ?thesis using assms by (simp add: Let_def nested_panelPlace)
next
  case Back
  then show ?thesis using assms by (simp add: nested_handleBack)
next
  case Close
  then show ?thesis by (simp add: nested_handleClose)
next
  case (ZoomEnd z)
  then show ?thesis using assms by simp
qed

lemma nested_run: "nested (selected (run env es))"
proof (induction es rule: rev_induct)
  case Nil
  show ?case by (simp add: run_Nil initialState_def nested_def noSelection_def)
next
  case (snoc e es)
  then show ?case unfolding run_snoc by (rule nested_step)
qed

lemma nested_place:
  "nested sel \<Longrightarrow> sel_place sel = Some pl \<Longrightarrow>
   \<exists>cn ci ps. sel_country sel = Some cn \<and> sel_city sel = Some ci
      \<and> ci \<in> set (cities cn) \<and> places ci = Some ps \<and> pl \<in> set ps"
  by (auto simp: nested_def split: option.splits)

lemma nested_city:
  "nested sel \<Longrightarrow> sel_city sel = Some ci \<Longrightarrow>
   \<exists>cn. sel_country sel = Some cn \<and> ci \<in> set (cities cn)"
  by (auto simp: nested_def split: option.splits)

text \<open>
  Claim C8. In every state reached by a sequence of events, a selected place comes with a
  selected city and a selected country, the place is one of the city's places and the city
  one of the country's cities; a selected city comes with a selected country that has it
  among its cities. Every event keeps the selection nested.
\<close>

theorem selection_nested:
  "(sel_place (selected (run env es)) = Some pl \<longrightarrow>
      (\<exists>cn ci ps. sel_country (selected (run env es)) = Some cn
         \<and> sel_city (selected (run env es)) = Some ci
         \<and> ci \<in> set (cities cn) \<and> places ci = Some ps \<and> pl \<in> set ps))
   \<and> (sel_city (selected (run env es)) = Some ci \<longrightarrow>
      (\<exists>cn. sel_country (selected (run env es)) = Some cn \<and> ci \<in> set (cities cn)))
   \<and> (nested (selected s) \<longrightarrow> nested (selected (step env s e)))"
  using nested_place [OF nested_run, of env es pl] nested_city [OF nested_run, of env es ci]
    nested_step [of s env e]
  by blast

text \<open>
  The theorem of C8 on the example environment, after a click on the first place marker.
\<close>

theorem selection_nested_witness:
  "sel_place (selected (run exEnv [PathClick 10, ZoomEnd 12, PlaceMarkerClick 0]))
     = Some exWestminsterGB
   \<and> sel_city (selected (run exEnv [PathClick 10, ZoomEnd 12, PlaceMarkerClick 0]))
     = Some exLondonGB
   \<and> sel_country (selected (run exEnv [PathClick 10, ZoomEnd 12, PlaceMarkerClick 0]))
     = Some exGB
   \<and> exLondonGB \<in> set (cities exGB)
   \<and> places exLondonGB = Some [exWestminsterGB]
   \<and> nested (selected (run exEnv [PathClick 10, ZoomEnd 12]))
   \<and> nested (selected (step exEnv (run exEnv [PathClick 10, ZoomEnd 12]) (PlaceMarkerClick 0)))"
proof -
  have n: "nested (selected (run exEnv [PathClick 10, ZoomEnd 12]))"
    by (simp add: run_def ex_env ex_fields selectCountry_fields nested_def)
  show ?thesis
    using selection_nested [of exEnv "[PathClick 10, ZoomEnd 12, PlaceMarkerClick 0]"
        exWestminsterGB exLondonGB "run exEnv [PathClick 10, ZoomEnd 12]" "PlaceMarkerClick 0"]
      n
    by (simp add: ex_place_state ex_fields)
qed

subsection \<open>Concrete runs\<close>

lemma ex_distinct:
  "exCA \<noteq> exGB" "exLondonCA \<noteq> exLondonGB" "exWestminsterCA \<noteq> exWestminsterGB"
  "country_id exCA \<noteq> country_id exGB"
  by (simp_all add: exGB_def exCA_def exLondonGB_def exLondonCA_def
      exWestminsterGB_def exWestminsterCA_def)

lemma ex_city_state:
  "selected (run exEnv [PathClick 10, ZoomEnd 4, CityMarkerClick 0])
     = \<lparr>sel_country = Some exGB, sel_city = Some exLondonGB, sel_place = None\<rparr>"
  "selectedLayerRef (run exEnv [PathClick 10, ZoomEnd 4, CityMarkerClick 0]) = Some 10"
  by (simp_all add: run_def ex_env ex_fields selectCountry_fields
      cityMarkers_def onClick_cityMarker selectCity_def)

lemma radius_cityMarker:
  "radius (cityMarker z sel cn ci) = (if cityIsActive sel cn ci then cityRadius ci + 3 else cityRadius ci)"
  "fillColor (options (cityMarker z sel cn ci)) = (if cityIsActive sel cn ci then ''#FFD700'' else ''#FF6B35'')"
  "color (options (cityMarker z sel cn ci)) = (if cityIsActive sel cn ci then ''#fff'' else ''#FF8C00'')"
  by (simp_all add: cityMarker_def Let_def)

lemma radius_placeMarker:
  "radius (placeMarker z sel cn ci pl) = (if placeIsActive sel ci pl then placeRadius pl + 3 else placeRadius pl)"
  "fillColor (options (placeMarker z sel cn ci pl)) = (if placeIsActive sel ci pl then ''#e9d5ff'' else ''#c084fc'')"
  "color (options (placeMarker z sel cn ci pl)) = (if placeIsActive sel ci pl then ''#fff'' else ''#a855f7'')"
  by (simp_all add: placeMarker_def Let_def)

text \<open>
  For city markers the test by name and country id is the test by identity, in a dataset
  whose country ids are distinct and whose city names are distinct within a country.
\<close>

lemma city_marker_active_iff_selected:
  assumes ids: "distinct (map country_id ds)"
    and names: "\<forall>cn \<in> set ds. distinct (map city_name (cities cn))"
    and sel: "sel_country sel = Some cn'" "sel_city sel = Some ci'"
    and par: "cn' \<in> set ds" "ci' \<in> set (cities cn')"
    and own: "cn \<in> set ds" "ci \<in> set (cities cn)"
  shows "cityIsActive sel cn ci \<longleftrightarrow> cn = cn' \<and> ci = ci'"
proof
  assume "cityIsActive sel cn ci"
  then have n: "city_name ci' = city_name ci" and i: "country_id cn' = country_id cn"
    using sel by (simp_all add: cityIsActive_def)
  from ids have "inj_on country_id (set ds)" by (simp add: distinct_map)
  with i par(1) own(1) have c: "cn = cn'" by (auto dest: inj_onD)
  from names own(1) have "inj_on city_name (set (cities cn))" by (simp add: distinct_map)
  with n par(2) own(2) c have "ci = ci'" by (auto dest: inj_onD)
  with c show "cn = cn' \<and> ci = ci'" by simp
next
  assume "cn = cn' \<and> ci = ci'"
  then show "cityIsActive sel cn ci"
    using sel by (simp add: cityIsActive_def)
qed

lemma ex_place_only_state:
  "selected (run exEnv [ZoomEnd 12, PlaceMarkerClick 0])
     = \<lparr>sel_country = Some exGB, sel_city = Some exLondonGB, sel_place = Some exWestminsterGB\<rparr>"
  by (simp add: run_def ex_env ex_fields initialState_def
      placeMarkers_def onClick_placeMarker selectPlace_def)

text \<open>
  Claim C7 at a failing input. The test for a place marker compares the names of the place
  and of the city, and not the country, while the test for a city marker does compare the
  country. With the Westminster of the British London selected, the marker of the
  Westminster of the Canadian London is drawn \<open>3\<close> units larger than its baseline and in
  the highlight colours, although place, city and country are all different entities.
\<close>

theorem place_marker_highlighted_in_other_country:
  "selected (run exEnv [ZoomEnd 12, PlaceMarkerClick 0])
     = \<lparr>sel_country = Some exGB, sel_city = Some exLondonGB, sel_place = Some exWestminsterGB\<rparr>
   \<and> onClick (placeMarkers 12 (selected (run exEnv [ZoomEnd 12, PlaceMarkerClick 0]))
                (countrySubreddits exEnv) ! 1)
       = (exCA, exLondonCA, exWestminsterCA)
   \<and> radius (placeMarkers 12 (selected (run exEnv [ZoomEnd 12, PlaceMarkerClick 0]))
                (countrySubreddits exEnv) ! 1)
       = placeRadius exWestminsterCA + 3
   \<and> fillColor (options (placeMarkers 12 (selected (run exEnv [ZoomEnd 12, PlaceMarkerClick 0]))
                (countrySubreddits exEnv) ! 1))
       = ''#e9d5ff''
   \<and> color (options (placeMarkers 12 (selected (run exEnv [ZoomEnd 12, PlaceMarkerClick 0]))
                (countrySubreddits exEnv) ! 1))
       = ''#fff''
   \<and> exCA \<noteq> exGB \<and> exLondonCA \<noteq> exLondonGB \<and> exWestminsterCA \<noteq> exWestminsterGB
   \<and> country_id exCA \<noteq> country_id exGB"
  by (simp add: ex_place_only_state ex_env ex_fields ex_distinct placeMarkers_def
      onClick_placeMarker radius_placeMarker placeIsActive_def)

text \<open>
  Claim C5 as stated fails: from a reachable state with a place selected, two calls of
  \<open>back()\<close> leave the country selected and its path highlighted.
\<close>

theorem back_twice_from_place_counterexample:
  "sel_place (selected (run exEnv [PathClick 10, ZoomEnd 12, PlaceMarkerClick 0]))
     = Some exWestminsterGB
   \<and> selected (handleBack (handleBack (run exEnv [PathClick 10, ZoomEnd 12, PlaceMarkerClick 0])))
     = \<lparr>sel_country = Some exGB, sel_city = None, sel_place = None\<rparr>
   \<and> selected (handleBack (handleBack (run exEnv [PathClick 10, ZoomEnd 12, PlaceMarkerClick 0])))
     \<noteq> noSelection
   \<and> isHighlightStyle
       (pathStyle (handleBack (handleBack (run exEnv [PathClick 10, ZoomEnd 12, PlaceMarkerClick 0]))) 10)"
  by (simp add: handleBack_def ex_place_state noSelection_def)

text \<open>
  The theorem of C5 on the state reached by a click on the first place marker.
\<close>

theorem back_three_times_from_place_witness:
  "selected (handleBack (handleBack (handleBack
      (run exEnv [PathClick 10, ZoomEnd 12, PlaceMarkerClick 0])))) = noSelection
   \<and> selectedLayerRef (handleBack (handleBack (handleBack
      (run exEnv [PathClick 10, ZoomEnd 12, PlaceMarkerClick 0])))) = None
   \<and> isDefaultStyle (pathStyle (handleBack (handleBack (handleBack
      (run exEnv [PathClick 10, ZoomEnd 12, PlaceMarkerClick 0])))) 10)
   \<and> selectedLayerRef (handleBack (handleBack
      (run exEnv [PathClick 10, ZoomEnd 12, PlaceMarkerClick 0]))) = Some 10"
  using back_three_times_from_place [of "run exEnv [PathClick 10, ZoomEnd 12, PlaceMarkerClick 0]" 10]
  by (simp add: ex_place_state)

text \<open>
  The theorem of C6 on a state with a place, a state with a city and a state with a country.
\<close>

theorem handleBack_one_level_witness:
  "selected (handleBack (run exEnv [PathClick 10, ZoomEnd 12, PlaceMarkerClick 0]))
     = \<lparr>sel_country = Some exGB, sel_city = Some exLondonGB, sel_place = None\<rparr>
   \<and> selected (handleBack (run exEnv [PathClick 10, ZoomEnd 4, CityMarkerClick 0]))
     = \<lparr>sel_country = Some exGB, sel_city = None, sel_place = None\<rparr>
   \<and> selectedLayerRef (handleBack (run exEnv [PathClick 10, ZoomEnd 4, CityMarkerClick 0]))
     = Some 10
   \<and> selected (handleBack (run exEnv [PathClick 10])) = noSelection
   \<and> selectedLayerRef (handleBack (run exEnv [PathClick 10])) = None
   \<and> isDefaultStyle (pathStyle (handleBack (run exEnv [PathClick 10])) 10)
   \<and> pathStyle (handleBack (run exEnv [PathClick 10])) 20 = pathStyle (run exEnv [PathClick 10]) 20"
  using handleBack_one_level [of "run exEnv [PathClick 10, ZoomEnd 12, PlaceMarkerClick 0]" 10 20]
    handleBack_one_level [of "run exEnv [PathClick 10, ZoomEnd 4, CityMarkerClick 0]" 10 20]
    handleBack_one_level [of "run exEnv [PathClick 10]" 10 20]
  by (simp add: ex_place_state ex_city_state ex_country_state)

text \<open>
  The theorem of C9 on the example environment, with an id that the table does not hold.
\<close>

theorem selectCountry_unknown_id_noop_witness:
  "countryMap exEnv ''010'' = None
   \<and> selectCountry exEnv ''010'' 30 (run exEnv [PathClick 10]) = run exEnv [PathClick 10]
   \<and> selectCountry_steps exEnv ''010'' 30 (run exEnv [PathClick 10]) = []"
  using selectCountry_unknown_id_noop [of exEnv "''010''" 30 "run exEnv [PathClick 10]"]
  by (simp add: ex_env)

text \<open>
  The theorem of C10 on the initial state and on a state with a country selected.
\<close>

theorem none_is_fixpoint_witness:
  "selected (initialState exEnv) = noSelection
   \<and> selectedLayerRef (initialState exEnv) = None
   \<and> handleBack (initialState exEnv) = initialState exEnv
   \<and> handleClose (initialState exEnv) = initialState exEnv
   \<and> handleClose (handleClose (run exEnv [PathClick 10])) = handleClose (run exEnv [PathClick 10])"
  using none_is_fixpoint [of "initialState exEnv"] none_is_fixpoint [of "run exEnv [PathClick 10]"]
  by (simp add: initialState_def)

text \<open>
  Clicks on markers are outside the invariant of the style synchronisation: a click on a
  city marker selects the city's country and touches neither the stored path nor any style.
\<close>

lemma marker_click_selects_country_without_path:
  "selectedLayerRef (run exEnv [PathClick 10, ZoomEnd 4, CityMarkerClick 2]) = Some 10
   \<and> boundCountry exEnv 10 = Some exGB
   \<and> sel_country (selected (run exEnv [PathClick 10, ZoomEnd 4, CityMarkerClick 2])) = Some exCA
   \<and> sel_country (selected (run exEnv [ZoomEnd 4, CityMarkerClick 2])) = Some exCA
   \<and> selectedLayerRef (run exEnv [ZoomEnd 4, CityMarkerClick 2]) = None"
  by (simp add: run_def ex_env ex_fields selectCountry_fields initialState_def
      cityMarkers_def onClick_cityMarker selectCity_def)

end
